theory Spec2Isabelle
  imports Main
begin

section \<open>JavaScript values and plain objects\<close>

text \<open>
  A browser \<open>File\<close> is its name and its content.  Form values and stored row data are
  JavaScript values; a plain object (\<open>Record<string, any>\<close>) is an association list in
  property order, and reading a key that is not there gives \<open>undefined\<close>.  The values
  are the ones the forms and the stored rows hold: the two empty values, strings, whole
  numbers, booleans, arrays and files.
\<close>

record jsfile =
  fileName :: string
  fileBytes :: string

datatype jsval =
    Undefined
  | Null
  | Str string
  | Num int
  | Bool bool
  | Arr "jsval list"
  | FileV jsfile

type_synonym jsobject = "(string \<times> jsval) list"

definition getProp :: "jsobject \<Rightarrow> string \<Rightarrow> jsval" where
  "getProp obj k = (case map_of obj k of None \<Rightarrow> Undefined | Some v \<Rightarrow> v)"

fun setProp :: "jsobject \<Rightarrow> string \<Rightarrow> jsval \<Rightarrow> jsobject" where
  "setProp [] k v = [(k, v)]"
| "setProp ((k', v') # rest) k v =
     (if k' = k then (k, v) # rest else (k', v') # setProp rest k v)"

fun truthy :: "jsval \<Rightarrow> bool" where
  "truthy Undefined = False"
| "truthy Null = False"
| "truthy (Str s) = (s \<noteq> [])"
| "truthy (Num n) = (n \<noteq> 0)"
| "truthy (Bool b) = b"
| "truthy (Arr xs) = True"
| "truthy (FileV f) = True"

fun isFile :: "jsval \<Rightarrow> bool" where
  "isFile (FileV f) = True"
| "isFile v = False"

fun isString :: "jsval \<Rightarrow> bool" where
  "isString (Str s) = True"
| "isString v = False"

fun theFile :: "jsval \<Rightarrow> jsfile" where
  "theFile (FileV f) = f"
| "theFile v = \<lparr>fileName = [], fileBytes = []\<rparr>"

fun theString :: "jsval \<Rightarrow> string" where
  "theString (Str s) = s"
| "theString v = []"

text \<open>\<open>a || b\<close> on values.\<close>

definition jsOr :: "jsval \<Rightarrow> jsval \<Rightarrow> jsval" where
  "jsOr a b = (if truthy a then a else b)"

text \<open>\<open>a ?? b\<close>: the fallback is taken for \<open>null\<close> and \<open>undefined\<close> only.\<close>

definition nullish :: "jsval \<Rightarrow> jsval \<Rightarrow> jsval" where
  "nullish a b = (if a = Undefined \<or> a = Null then b else a)"

text \<open>
  \<open>s.trim() === ''\<close>: every code unit of \<open>s\<close> is white space.  Strings here are
  sequences of 8-bit code units, so the white space is tab, line feed, vertical tab, form
  feed, carriage return, space and no-break space.
\<close>

definition jsWhitespace :: "char \<Rightarrow> bool" where
  "jsWhitespace c = (c \<in> set [CHR 0x09, CHR 0x0A, CHR 0x0B, CHR 0x0C, CHR 0x0D, CHR 0x20, CHR 0xA0])"

definition trimIsEmpty :: "string \<Rightarrow> bool" where
  "trimIsEmpty s = list_all jsWhitespace s"

text \<open>\<open>parts.join('/')\<close>.\<close>

fun joinSlash :: "string list \<Rightarrow> string" where
  "joinSlash [] = []"
| "joinSlash [p] = p"
| "joinSlash (p # q # ps) = p @ CHR ''/'' # joinSlash (q # ps)"

section \<open>Data model (\<open>lib/types.ts\<close>)\<close>

datatype DynamicFieldType =
    TEXT_INPUT | TEXT_AREA | NUMBER | DATE | TIME | DATETIME | DOCUMENT_UPLOAD
  | DROPDOWN_LIST | CHECKBOX_GROUP | RADIO_BUTTON_GROUP | BOOLEAN_TOGGLE

datatype WorkflowInstanceStatus = ACTIVE | COMPLETED | CANCELLED

text \<open>
  \<open>TaskStatus.COMPLETED\<close> is written \<open>TASK_COMPLETED\<close>, the name \<open>COMPLETED\<close> being the
  one of the instance status.
\<close>

datatype TaskStatus = PENDING | IN_PROGRESS | TASK_COMPLETED | OVERDUE | SKIPPED

text \<open>
  A time stamp in a document being written is either a concrete instant (milliseconds) or
  the \<open>serverTimestamp()\<close> sentinel, which the server replaces by its own clock when the
  write is applied.
\<close>

datatype timeval = At int | ServerTimestamp

text \<open>
  Of \<open>validationRules\<close> only \<open>email\<close>, \<open>min\<close> and \<open>max\<close> are read by the code modelled
  here; \<open>f_defaultValue\<close> is \<open>Undefined\<close> when the field has no configured default.
\<close>

record DynamicField =
  f_id :: string
  f_name :: string
  f_label :: string
  f_type :: DynamicFieldType
  f_ruleEmail :: bool
  f_ruleMin :: "int option"
  f_ruleMax :: "int option"
  f_isRequired :: bool
  f_defaultValue :: jsval
  f_isArchived :: bool

record DynamicTable =
  t_id :: string
  t_name :: string
  t_fieldIds :: "string list"
  t_isArchived :: bool

record DynamicTableRowData =
  e_id :: string
  e_data :: jsobject
  e_isArchived :: bool
  e_updatedAt :: timeval

record TaskTemplate =
  tt_id :: string
  tt_name :: string
  tt_dueDateOffsetDays :: "int option"
  tt_dynamicTableId :: "string option"
  tt_isArchived :: bool

record WorkflowTemplate =
  wt_id :: string
  wt_name :: string
  wt_taskTemplateIds :: "string list"
  wt_isArchived :: bool

record WorkflowInstance =
  wi_id :: string
  wi_workflowTemplateId :: string
  wi_name :: string
  wi_status :: WorkflowInstanceStatus
  wi_startedByUserId :: "string option"
  wi_startDatetime :: timeval
  wi_finishDatetime :: "timeval option"
  wi_associatedData :: "(string \<times> string) list"
  wi_isArchived :: bool
  wi_createdAt :: timeval
  wi_updatedAt :: timeval

record Task =
  tk_id :: string
  tk_taskTemplateId :: string
  tk_workflowInstanceId :: string
  tk_assignedToUserId :: "string option"
  tk_status :: TaskStatus
  tk_dueDate :: "timeval option"
  tk_startDatetime :: "timeval option"
  tk_finishDatetime :: "timeval option"
  tk_notes :: "string option"
  tk_dynamicTableId :: "string option"
  tk_dynamicTableData :: jsobject
  tk_createdAt :: timeval
  tk_updatedAt :: timeval

section \<open>The external services\<close>

text \<open>
  The document database and the blob storage are the state of the world.  Table entries are
  kept with the id of their table (the sub-collection \<open>dynamicTables/<id>/entries\<close>);
  storage objects are kept by their full path.  \<open>tick\<close> counts the SDK calls made so far
  and \<open>idCount\<close> the automatic document ids handed out.
\<close>

record store =
  dynamicFields :: "DynamicField list"
  dynamicTables :: "DynamicTable list"
  tableEntries :: "(string \<times> DynamicTableRowData) list"
  taskTemplates :: "TaskTemplate list"
  workflowTemplates :: "WorkflowTemplate list"
  workflowInstances :: "WorkflowInstance list"
  tasks :: "Task list"

record world =
  db :: store
  objects :: "(string \<times> jsfile) list"
  tick :: nat
  idCount :: nat

text \<open>
  What the program cannot decide is an oracle: whether the SDK call number \<open>k\<close> fails in
  transport, what \<open>Date.now()\<close> and the server clock read at that moment, which automatic
  id comes next, the canonical \<open>fullPath\<close> the storage SDK gives a path, and the signed-in
  user.
\<close>

record env =
  fault :: "nat \<Rightarrow> bool"
  dateNow :: "nat \<Rightarrow> int"
  serverTime :: "nat \<Rightarrow> int"
  autoId :: "nat \<Rightarrow> string"
  fullPath :: "string \<Rightarrow> string"
  currentUserUid :: "string option"

text \<open>
  What can be thrown: the storage's object-not-found, the database's not-found, a transport
  failure of either SDK, the database SDK's invalid-argument (data it refuses, a time stamp
  out of range), JavaScript's \<open>RangeError\<close> and \<open>TypeError\<close>, and the errors the
  program throws itself, with their message.
\<close>

datatype error =
    StorageObjectNotFound
  | FirestoreNotFound
  | SdkFailure
  | InvalidArgument
  | RangeError
  | TypeError string
  | AppError string

type_synonym 'a io = "world \<Rightarrow> (error + 'a) \<times> world"

definition io_return :: "'a \<Rightarrow> 'a io" where
  "io_return x = (\<lambda>w. (Inr x, w))"

definition io_throw :: "error \<Rightarrow> 'a io" where
  "io_throw e = (\<lambda>w. (Inl e, w))"

definition io_bind :: "'a io \<Rightarrow> ('a \<Rightarrow> 'b io) \<Rightarrow> 'b io" where
  "io_bind m f = (\<lambda>w. case m w of (Inl e, w') \<Rightarrow> (Inl e, w') | (Inr x, w') \<Rightarrow> f x w')"

definition io_catch :: "'a io \<Rightarrow> (error \<Rightarrow> 'a io) \<Rightarrow> 'a io" where
  "io_catch m h = (\<lambda>w. case m w of (Inl e, w') \<Rightarrow> h e w' | (Inr x, w') \<Rightarrow> (Inr x, w'))"

text \<open>Every SDK call takes one tick and may fail in transport.\<close>

definition sdkCall :: "env \<Rightarrow> unit io" where
  "sdkCall env = (\<lambda>w. (if fault env (tick w) then Inl SdkFailure else Inr (),
                        w\<lparr>tick := Suc (tick w)\<rparr>))"

subsection \<open>Blob storage\<close>

definition deleteObject :: "env \<Rightarrow> string \<Rightarrow> unit io" where
  "deleteObject env path =
     io_bind (sdkCall env) (\<lambda>_ w.
       if fullPath env path \<in> fst ` set (objects w)
       then (Inr (), w\<lparr>objects := filter (\<lambda>ob. fst ob \<noteq> fullPath env path) (objects w)\<rparr>)
       else (Inl StorageObjectNotFound, w))"

definition uploadBytes :: "env \<Rightarrow> string \<Rightarrow> jsfile \<Rightarrow> string io" where
  "uploadBytes env path f =
     io_bind (sdkCall env) (\<lambda>_ w.
       (Inr (fullPath env path),
        w\<lparr>objects := (fullPath env path, f)
                        # filter (\<lambda>ob. fst ob \<noteq> fullPath env path) (objects w)\<rparr>))"

text \<open>\<open>uploadFileToStorage\<close>: the catch block logs and rethrows.\<close>

definition uploadFileToStorage :: "env \<Rightarrow> jsfile \<Rightarrow> string \<Rightarrow> string io" where
  "uploadFileToStorage env f path = io_catch (uploadBytes env path f) io_throw"

definition deleteFileFromStorage :: "env \<Rightarrow> string \<Rightarrow> unit io" where
  "deleteFileFromStorage env storagePath =
     (if storagePath = [] \<or> trimIsEmpty storagePath then io_return ()
      else io_catch (deleteObject env storagePath)
             (\<lambda>e. if e = StorageObjectNotFound then io_return () else io_throw e))"

subsection \<open>Document database\<close>

text \<open>
  A read gives the document as it is stored.  The helpers \<open>toFirestore\<close> and
  \<open>fromFirestore\<close> of the source only change how a time stamp is written (ISO string or
  time stamp object) and drop top-level keys that are \<open>undefined\<close>; here a time stamp is
  an instant and an absent key is \<open>None\<close>, so they leave nothing to do.

  The database SDK checks the data of a write before it sends anything: \<open>undefined\<close>, a
  \<open>File\<close> (an object of a class) and an array inside an array are refused, also inside a
  map or an array, and so is a map key that is empty or reserved (it matches
  \<open>/^__.*__$/\<close>, where the dot stands for any code unit but a line terminator); the call
  throws.  \<open>toFirestore\<close> drops \<open>undefined\<close> only at the top level of the document, so
  the nested \<open>data\<close> and \<open>dynamicTableData\<close> maps reach this check as they are.  (The
  keys of \<open>associatedData\<close> are ids of tables, which are neither empty nor reserved.)
\<close>

definition reservedFieldName :: "string \<Rightarrow> bool" where
  "reservedFieldName k =
     (4 \<le> length k \<and> take 2 k = ''__'' \<and> drop (length k - 2) k = ''__''
      \<and> list_all (\<lambda>c. c \<noteq> CHR 0x0A \<and> c \<noteq> CHR 0x0D) (take (length k - 4) (drop 2 k)))"

definition firestoreKey :: "string \<Rightarrow> bool" where
  "firestoreKey k = (k \<noteq> [] \<and> \<not> reservedFieldName k)"

fun firestoreScalar :: "jsval \<Rightarrow> bool" where
  "firestoreScalar Undefined = False"
| "firestoreScalar Null = True"
| "firestoreScalar (Str s) = True"
| "firestoreScalar (Num n) = True"
| "firestoreScalar (Bool b) = True"
| "firestoreScalar (Arr xs) = False"
| "firestoreScalar (FileV f) = False"

definition firestoreValue :: "jsval \<Rightarrow> bool" where
  "firestoreValue v = (case v of Arr xs \<Rightarrow> list_all firestoreScalar xs | _ \<Rightarrow> firestoreScalar v)"

definition firestoreMap :: "jsobject \<Rightarrow> bool" where
  "firestoreMap obj =
     list_all (\<lambda>k. firestoreKey k \<and> firestoreValue (getProp obj k)) (map fst obj)"

text \<open>
  \<open>Timestamp.fromDate(new Date(ms))\<close>: a date more than 8.64e15 ms from the epoch is an
  invalid date, which the SDK cannot write; the time stamp takes the whole seconds
  \<open>floor (ms / 1000)\<close>, and its constructor throws unless they are in the years 1 to 9999.
\<close>

definition timestampFromMillis :: "int \<Rightarrow> error + timeval" where
  "timestampFromMillis ms =
     (if ms < - 8640000000000000 \<or> 8640000000000000 < ms
      then Inl RangeError
      else if ms div 1000 < - 62135596800
      then Inl InvalidArgument
      else if 253402300800 \<le> ms div 1000
      then Inl InvalidArgument
      else Inr (At ms))"

definition getDynamicTableById :: "env \<Rightarrow> string \<Rightarrow> DynamicTable option io" where
  "getDynamicTableById env i =
     io_bind (sdkCall env) (\<lambda>_ w. (Inr (find (\<lambda>t. t_id t = i) (dynamicTables (db w))), w))"

definition getAllDynamicFields :: "env \<Rightarrow> DynamicField list io" where
  "getAllDynamicFields env =
     io_bind (sdkCall env) (\<lambda>_ w. (Inr (dynamicFields (db w)), w))"

definition getEntryDoc :: "env \<Rightarrow> string \<Rightarrow> string \<Rightarrow> DynamicTableRowData option io" where
  "getEntryDoc env tableId entryId =
     io_bind (sdkCall env) (\<lambda>_ w.
       (Inr (map_option snd
               (find (\<lambda>te. fst te = tableId \<and> e_id (snd te) = entryId) (tableEntries (db w)))),
        w))"

text \<open>
  \<open>updateDoc\<close> on an entry: the data is checked first, then the fields given are merged
  into the document; the call fails when the document does not exist.
\<close>

definition updateEntryDoc :: "env \<Rightarrow> string \<Rightarrow> string \<Rightarrow> jsobject \<Rightarrow> unit io" where
  "updateEntryDoc env tableId entryId newData =
     (if \<not> firestoreMap newData then io_throw InvalidArgument
      else
       (\<lambda>w0. io_bind (sdkCall env) (\<lambda>_ w.
          if list_ex (\<lambda>te. fst te = tableId \<and> e_id (snd te) = entryId) (tableEntries (db w))
          then (Inr (),
                w\<lparr>db := (db w)\<lparr>tableEntries :=
                   map (\<lambda>te. if fst te = tableId \<and> e_id (snd te) = entryId
                              then (fst te, (snd te)\<lparr>e_data := newData,
                                                     e_updatedAt := At (serverTime env (tick w0))\<rparr>)
                              else te)
                       (tableEntries (db w))\<rparr>\<rparr>)
          else (Inl FirestoreNotFound, w)) w0))"

section \<open>Value codec for table entries (\<open>updateDynamicTableEntry\<close>)\<close>

text \<open>The body of the loop over the table's fields, for one field.\<close>

definition entryFieldStep ::
  "env \<Rightarrow> string \<Rightarrow> string \<Rightarrow> jsobject \<Rightarrow> jsobject \<Rightarrow> DynamicField \<Rightarrow> jsobject \<Rightarrow> jsobject io"
where
  "entryFieldStep env tableId entryId newData currentData field processedDataForUpdate =
     (if f_type field = DOCUMENT_UPLOAD then
        (let newFileOrPath = getProp newData (f_name field);
             oldStoragePath = getProp currentData (f_name field)
         in if isFile newFileOrPath then
              io_bind (if isString oldStoragePath \<and> truthy oldStoragePath
                       then deleteFileFromStorage env (theString oldStoragePath)
                       else io_return ())
                (\<lambda>_. io_bind (uploadFileToStorage env (theFile newFileOrPath)
                                (joinSlash [''dynamicTableEntries'', tableId, entryId,
                                            f_name field, fileName (theFile newFileOrPath)]))
                  (\<lambda>p. io_return (setProp processedDataForUpdate (f_name field) (Str p))))
            else if newFileOrPath = Null \<or> newFileOrPath = Undefined \<or> newFileOrPath = Str []
            then
              io_bind (if isString oldStoragePath \<and> truthy oldStoragePath
                       then deleteFileFromStorage env (theString oldStoragePath)
                       else io_return ())
                (\<lambda>_. io_return (setProp processedDataForUpdate (f_name field) Null))
            else if isString newFileOrPath then
              io_return (setProp processedDataForUpdate (f_name field) newFileOrPath)
            else
              io_return (setProp processedDataForUpdate (f_name field)
                           (jsOr oldStoragePath Null)))
      else io_return processedDataForUpdate)"

fun entryFieldLoop ::
  "env \<Rightarrow> string \<Rightarrow> string \<Rightarrow> jsobject \<Rightarrow> jsobject \<Rightarrow> DynamicField list \<Rightarrow> jsobject \<Rightarrow> jsobject io"
where
  "entryFieldLoop env tableId entryId newData currentData [] processed = io_return processed"
| "entryFieldLoop env tableId entryId newData currentData (field # rest) processed =
     io_bind (entryFieldStep env tableId entryId newData currentData field processed)
       (entryFieldLoop env tableId entryId newData currentData rest)"

definition updateDynamicTableEntry ::
  "env \<Rightarrow> string \<Rightarrow> string \<Rightarrow> jsobject \<Rightarrow> jsobject \<Rightarrow> DynamicTableRowData io"
where
  "updateDynamicTableEntry env tableId entryId newData currentData =
     io_bind (getDynamicTableById env tableId) (\<lambda>tableDef.
       case tableDef of
         None \<Rightarrow> io_throw (AppError (''Table definition for '' @ tableId @ '' not found.''))
       | Some td \<Rightarrow>
           io_bind (getAllDynamicFields env) (\<lambda>allFields.
             io_bind (entryFieldLoop env tableId entryId newData currentData
                        (filter (\<lambda>f. f_id f \<in> set (t_fieldIds td)) allFields) newData)
               (\<lambda>processedDataForUpdate.
                  io_bind (updateEntryDoc env tableId entryId processedDataForUpdate) (\<lambda>_.
                    io_bind (getEntryDoc env tableId entryId) (\<lambda>updatedDocSnap.
                      case updatedDocSnap of
                        None \<Rightarrow> io_throw (AppError ''Dynamic table entry not found after update'')
                      | Some e \<Rightarrow> io_return e)))))"

section \<open>Tasks (\<open>updateTaskDynamicData\<close>, \<open>completeTask\<close>)\<close>

fun resolveTime :: "int \<Rightarrow> timeval \<Rightarrow> timeval" where
  "resolveTime t ServerTimestamp = At t"
| "resolveTime t (At x) = At x"

text \<open>
  The payload of an \<open>updateDoc\<close> on a task: only the keys that are present are merged into
  the stored document.
\<close>

record TaskUpdate =
  u_dynamicTableData :: "jsobject option"
  u_status :: "TaskStatus option"
  u_startDatetime :: "timeval option"
  u_finishDatetime :: "timeval option"
  u_notes :: "string option"
  u_updatedAt :: "timeval option"

definition applyTaskUpdate :: "int \<Rightarrow> TaskUpdate \<Rightarrow> Task \<Rightarrow> Task" where
  "applyTaskUpdate t u task =
     task\<lparr>tk_dynamicTableData :=
            (case u_dynamicTableData u of None \<Rightarrow> tk_dynamicTableData task | Some d \<Rightarrow> d),
          tk_status := (case u_status u of None \<Rightarrow> tk_status task | Some s \<Rightarrow> s),
          tk_startDatetime :=
            (case u_startDatetime u of None \<Rightarrow> tk_startDatetime task
             | Some x \<Rightarrow> Some (resolveTime t x)),
          tk_finishDatetime :=
            (case u_finishDatetime u of None \<Rightarrow> tk_finishDatetime task
             | Some x \<Rightarrow> Some (resolveTime t x)),
          tk_notes := (case u_notes u of None \<Rightarrow> tk_notes task | Some n \<Rightarrow> Some n),
          tk_updatedAt :=
            (case u_updatedAt u of None \<Rightarrow> tk_updatedAt task | Some x \<Rightarrow> resolveTime t x)\<rparr>"

definition getTaskDoc :: "env \<Rightarrow> string \<Rightarrow> Task option io" where
  "getTaskDoc env taskId =
     io_bind (sdkCall env) (\<lambda>_ w. (Inr (find (\<lambda>t. tk_id t = taskId) (tasks (db w))), w))"

text \<open>
  \<open>updateDoc\<close> on a task: the data is checked first, then the keys given are merged into
  the document; the call fails when the document does not exist.
\<close>

definition updateTaskDoc :: "env \<Rightarrow> string \<Rightarrow> TaskUpdate \<Rightarrow> unit io" where
  "updateTaskDoc env taskId u =
     (if \<not> (case u_dynamicTableData u of None \<Rightarrow> True | Some d \<Rightarrow> firestoreMap d)
      then io_throw InvalidArgument
      else
       (\<lambda>w0. io_bind (sdkCall env) (\<lambda>_ w.
          if list_ex (\<lambda>t. tk_id t = taskId) (tasks (db w))
          then (Inr (),
                w\<lparr>db := (db w)\<lparr>tasks :=
                   map (\<lambda>t. if tk_id t = taskId
                             then applyTaskUpdate (serverTime env (tick w0)) u t else t)
                       (tasks (db w))\<rparr>\<rparr>)
          else (Inl FirestoreNotFound, w)) w0))"

text \<open>\<open>x\<close> is a string and truthy, for an optional string property.\<close>

fun optTruthy :: "string option \<Rightarrow> bool" where
  "optTruthy None = False"
| "optTruthy (Some s) = (s \<noteq> [])"

text \<open>The body of the loop of \<open>updateTaskDynamicData\<close> over the fields, for one field.\<close>

definition taskFieldStep ::
  "env \<Rightarrow> string \<Rightarrow> string \<Rightarrow> jsobject \<Rightarrow> jsobject \<Rightarrow> DynamicField \<Rightarrow> jsobject \<Rightarrow> jsobject io"
where
  "taskFieldStep env workflowInstanceId taskId newData currentTaskData field
       processedDataForUpdate =
     (if f_type field = DOCUMENT_UPLOAD then
        (let newFileOrPath = getProp newData (f_name field);
             oldStoragePath = getProp currentTaskData (f_name field)
         in if isFile newFileOrPath then
              io_bind (if isString oldStoragePath \<and> truthy oldStoragePath
                       then deleteFileFromStorage env (theString oldStoragePath)
                       else io_return ())
                (\<lambda>_. io_bind (uploadFileToStorage env (theFile newFileOrPath)
                                (joinSlash [''taskAttachments'', workflowInstanceId, taskId,
                                            f_name field, fileName (theFile newFileOrPath)]))
                  (\<lambda>p. io_return (setProp processedDataForUpdate (f_name field) (Str p))))
            else if (newFileOrPath = Null \<or> newFileOrPath = Undefined \<or> newFileOrPath = Str [])
                    \<and> (isString oldStoragePath \<and> truthy oldStoragePath)
            then
              io_bind (deleteFileFromStorage env (theString oldStoragePath))
                (\<lambda>_. io_return (setProp processedDataForUpdate (f_name field) Null))
            else if isString newFileOrPath then
              io_return (setProp processedDataForUpdate (f_name field) newFileOrPath)
            else
              io_return (setProp processedDataForUpdate (f_name field)
                           (jsOr oldStoragePath Null)))
      else io_return processedDataForUpdate)"

fun taskFieldLoop ::
  "env \<Rightarrow> string \<Rightarrow> string \<Rightarrow> jsobject \<Rightarrow> jsobject \<Rightarrow> DynamicField list \<Rightarrow> jsobject \<Rightarrow> jsobject io"
where
  "taskFieldLoop env workflowInstanceId taskId newData currentTaskData [] processed =
     io_return processed"
| "taskFieldLoop env workflowInstanceId taskId newData currentTaskData (field # rest) processed =
     io_bind (taskFieldStep env workflowInstanceId taskId newData currentTaskData field processed)
       (taskFieldLoop env workflowInstanceId taskId newData currentTaskData rest)"

text \<open>
  The fields of the task's table: none unless the table is found and not archived.  (The
  source runs the loop above only when there is a field; over no field it does nothing.)
\<close>

definition fieldsForTask :: "env \<Rightarrow> Task \<Rightarrow> DynamicField list io" where
  "fieldsForTask env taskDefinition =
     (if optTruthy (tk_dynamicTableId taskDefinition) then
        io_bind (getDynamicTableById env (the (tk_dynamicTableId taskDefinition))) (\<lambda>tableDef.
          case tableDef of
            None \<Rightarrow> io_return []
          | Some td \<Rightarrow>
              if \<not> t_isArchived td then
                io_bind (getAllDynamicFields env) (\<lambda>allFields.
                  io_return (filter (\<lambda>f. f_id f \<in> set (t_fieldIds td) \<and> \<not> f_isArchived f)
                               allFields))
              else io_return [])
      else io_return [])"

definition updateTaskDynamicData :: "env \<Rightarrow> string \<Rightarrow> jsobject \<Rightarrow> jsobject \<Rightarrow> Task io" where
  "updateTaskDynamicData env taskId newData currentTaskData =
     io_bind (getTaskDoc env taskId) (\<lambda>taskSnap.
       case taskSnap of
         None \<Rightarrow> io_throw (AppError ''Task not found'')
       | Some taskDefinition \<Rightarrow>
           io_bind (fieldsForTask env taskDefinition) (\<lambda>fieldsForTable.
             io_bind (taskFieldLoop env (tk_workflowInstanceId taskDefinition) taskId
                        newData currentTaskData fieldsForTable newData)
               (\<lambda>processedDataForUpdate.
                  io_bind (updateTaskDoc env taskId
                     \<lparr>u_dynamicTableData = Some processedDataForUpdate,
                      u_status = (if tk_status taskDefinition = PENDING
                                  then Some IN_PROGRESS else None),
                      u_startDatetime =
                        (if tk_status taskDefinition = PENDING
                            \<and> tk_startDatetime taskDefinition = None
                         then Some ServerTimestamp else None),
                      u_finishDatetime = None,
                      u_notes = None,
                      u_updatedAt = Some ServerTimestamp\<rparr>) (\<lambda>_.
                    io_bind (getTaskDoc env taskId) (\<lambda>updatedSnap.
                      case updatedSnap of
                        None \<Rightarrow> io_throw (AppError ''Task not found after update'')
                      | Some t \<Rightarrow> io_return t)))))"

definition completeTask :: "env \<Rightarrow> string \<Rightarrow> string option \<Rightarrow> Task io" where
  "completeTask env taskId notes =
     io_bind (getTaskDoc env taskId) (\<lambda>taskSnap.
       case taskSnap of
         None \<Rightarrow> io_throw (AppError ''Task not found'')
       | Some taskData \<Rightarrow>
           io_bind (updateTaskDoc env taskId
              \<lparr>u_dynamicTableData = None,
               u_status = Some TASK_COMPLETED,
               u_startDatetime =
                 (if tk_startDatetime taskData = None \<and> tk_status taskData = PENDING
                  then Some ServerTimestamp else None),
               u_finishDatetime = Some ServerTimestamp,
               u_notes = (if optTruthy notes then notes else None),
               u_updatedAt = Some ServerTimestamp\<rparr>) (\<lambda>_.
             io_bind (getTaskDoc env taskId) (\<lambda>updatedSnap.
               case updatedSnap of
                 None \<Rightarrow> io_throw (AppError ''Task not found after completion update'')
               | Some t \<Rightarrow> io_return t)))"

section \<open>Workflow instances (\<open>addWorkflowInstance\<close>, \<open>updateWorkflowInstanceStatus\<close>)\<close>

record AddWorkflowInstancePayload =
  p_workflowTemplateId :: string
  p_name :: string
  p_associatedData :: "(string \<times> string) list option"
  p_taskAssignments :: "(string \<times> string) list"
  p_startedByUserId :: "string option"

datatype batchWrite = SetInstance WorkflowInstance | SetTask Task

text \<open>\<open>doc(collection(...))\<close>: a new reference with an automatic id; no SDK call is made.\<close>

definition newDocId :: "env \<Rightarrow> string io" where
  "newDocId env = (\<lambda>w. (Inr (autoId env (idCount w)), w\<lparr>idCount := Suc (idCount w)\<rparr>))"

text \<open>\<open>a || null\<close> on an optional string.\<close>

definition orNull :: "string option \<Rightarrow> string option" where
  "orNull a = (if optTruthy a then a else None)"

definition getWorkflowTemplateById :: "env \<Rightarrow> string \<Rightarrow> WorkflowTemplate option io" where
  "getWorkflowTemplateById env i =
     io_bind (sdkCall env) (\<lambda>_ w. (Inr (find (\<lambda>t. wt_id t = i) (workflowTemplates (db w))), w))"

text \<open>
  \<open>getTaskTemplates\<close> lists the collection.  Document ids are unique in a collection, so
  the order of the listing does not matter to the search by id made on it; the list is
  given in stored order.
\<close>

definition getTaskTemplates :: "env \<Rightarrow> TaskTemplate list io" where
  "getTaskTemplates env = io_bind (sdkCall env) (\<lambda>_ w. (Inr (taskTemplates (db w)), w))"

definition getWorkflowInstanceDoc :: "env \<Rightarrow> string \<Rightarrow> WorkflowInstance option io" where
  "getWorkflowInstanceDoc env i =
     io_bind (sdkCall env) (\<lambda>_ w. (Inr (find (\<lambda>x. wi_id x = i) (workflowInstances (db w))), w))"

text \<open>The instance document put into the batch first.\<close>

definition newInstanceDoc ::
  "env \<Rightarrow> AddWorkflowInstancePayload \<Rightarrow> string \<Rightarrow> WorkflowInstance" where
  "newInstanceDoc env instanceData newInstanceId =
     \<lparr>wi_id = newInstanceId,
      wi_workflowTemplateId = p_workflowTemplateId instanceData,
      wi_name = p_name instanceData,
      wi_status = ACTIVE,
      wi_startedByUserId =
        (if optTruthy (p_startedByUserId instanceData) then p_startedByUserId instanceData
         else orNull (currentUserUid env)),
      wi_startDatetime = ServerTimestamp,
      wi_finishDatetime = None,
      wi_associatedData =
        (case p_associatedData instanceData of None \<Rightarrow> [] | Some ad \<Rightarrow> ad),
      wi_isArchived = False,
      wi_createdAt = ServerTimestamp,
      wi_updatedAt = ServerTimestamp\<rparr>"

text \<open>
  The initial data of a task: the data of the associated row, read from the database, when
  an association map was given, the task template names a table, the map has a row id for
  that table, and the row exists and is not archived; the empty object otherwise.
\<close>

definition initialTaskDataFor ::
  "env \<Rightarrow> AddWorkflowInstancePayload \<Rightarrow> TaskTemplate \<Rightarrow> jsobject io" where
  "initialTaskDataFor env instanceData taskTemplate =
     (case p_associatedData instanceData of
        None \<Rightarrow> io_return []
      | Some associatedData \<Rightarrow>
          if optTruthy (tt_dynamicTableId taskTemplate)
             \<and> optTruthy (map_of associatedData (the (tt_dynamicTableId taskTemplate)))
          then
            io_bind (getEntryDoc env (the (tt_dynamicTableId taskTemplate))
                       (the (map_of associatedData (the (tt_dynamicTableId taskTemplate)))))
              (\<lambda>tableEntrySnap.
                 case tableEntrySnap of
                   None \<Rightarrow> io_return []
                 | Some e \<Rightarrow> if \<not> e_isArchived e then io_return (e_data e) else io_return [])
          else io_return [])"

text \<open>
  The \<open>dueDate\<close> of a new task, \<open>now\<close> being what \<open>Date.now()\<close> reads:
  \<open>dueDateOffsetDays ? Timestamp.fromDate(new Date(Date.now() + days * 24 * 60 * 60 * 1000)) : null\<close>.
  Building the time stamp throws for an instant it cannot hold.
\<close>

definition taskDueDate :: "TaskTemplate \<Rightarrow> int \<Rightarrow> error + timeval option" where
  "taskDueDate taskTemplate now =
     (case tt_dueDateOffsetDays taskTemplate of
        None \<Rightarrow> Inr None
      | Some days \<Rightarrow>
          if days \<noteq> 0 then
            (case timestampFromMillis (now + days * 24 * 60 * 60 * 1000) of
               Inl e \<Rightarrow> Inl e
             | Inr ts \<Rightarrow> Inr (Some ts))
          else Inr None)"

text \<open>The task document put into the batch for a task template.\<close>

definition newTaskDoc ::
  "AddWorkflowInstancePayload \<Rightarrow> string \<Rightarrow> TaskTemplate \<Rightarrow> jsobject \<Rightarrow> timeval option
     \<Rightarrow> string \<Rightarrow> Task"
where
  "newTaskDoc instanceData newInstanceId taskTemplate initialTaskData dueDate newTaskId =
     \<lparr>tk_id = newTaskId,
      tk_taskTemplateId = tt_id taskTemplate,
      tk_workflowInstanceId = newInstanceId,
      tk_assignedToUserId = orNull (map_of (p_taskAssignments instanceData) (tt_id taskTemplate)),
      tk_status = PENDING,
      tk_dueDate = dueDate,
      tk_startDatetime = None,
      tk_finishDatetime = None,
      tk_notes = None,
      tk_dynamicTableId = orNull (tt_dynamicTableId taskTemplate),
      tk_dynamicTableData = initialTaskData,
      tk_createdAt = ServerTimestamp,
      tk_updatedAt = ServerTimestamp\<rparr>"

text \<open>
  The body of the loop over \<open>template.taskTemplateIds\<close>, for one id.  After the new
  reference is made, the document is built (the due date may throw) and \<open>batch.set\<close>
  checks its data; either failure leaves the loop and the function before the commit.
\<close>

definition materializeStep ::
  "env \<Rightarrow> AddWorkflowInstancePayload \<Rightarrow> string \<Rightarrow> TaskTemplate list \<Rightarrow> string
     \<Rightarrow> batchWrite list \<Rightarrow> batchWrite list io"
where
  "materializeStep env instanceData newInstanceId allTaskTemplates taskTemplateId batch =
     (case find (\<lambda>tt. tt_id tt = taskTemplateId \<and> \<not> tt_isArchived tt) allTaskTemplates of
        None \<Rightarrow> io_return batch
      | Some taskTemplate \<Rightarrow>
          io_bind (initialTaskDataFor env instanceData taskTemplate) (\<lambda>initialTaskData.
            io_bind (newDocId env) (\<lambda>newTaskId w.
              case taskDueDate taskTemplate (dateNow env (tick w)) of
                Inl e \<Rightarrow> (Inl e, w)
              | Inr dueDate \<Rightarrow>
                  if firestoreMap initialTaskData
                  then (Inr (batch @ [SetTask (newTaskDoc instanceData newInstanceId taskTemplate
                                                 initialTaskData dueDate newTaskId)]),
                        w)
                  else (Inl InvalidArgument, w))))"

fun materializeLoop ::
  "env \<Rightarrow> AddWorkflowInstancePayload \<Rightarrow> string \<Rightarrow> TaskTemplate list \<Rightarrow> string list
     \<Rightarrow> batchWrite list \<Rightarrow> batchWrite list io"
where
  "materializeLoop env instanceData newInstanceId allTaskTemplates [] batch = io_return batch"
| "materializeLoop env instanceData newInstanceId allTaskTemplates (taskTemplateId # rest) batch =
     io_bind (materializeStep env instanceData newInstanceId allTaskTemplates taskTemplateId batch)
       (materializeLoop env instanceData newInstanceId allTaskTemplates rest)"

text \<open>
  Everything \<open>addWorkflowInstance\<close> does before \<open>batch.commit()\<close>: the instance is put into
  the batch, the template is read and, when it exists, its tasks are materialized.
\<close>

definition buildBatch ::
  "env \<Rightarrow> AddWorkflowInstancePayload \<Rightarrow> string \<Rightarrow> batchWrite list io" where
  "buildBatch env instanceData newInstanceId =
     io_bind (getWorkflowTemplateById env (p_workflowTemplateId instanceData)) (\<lambda>template.
       case template of
         None \<Rightarrow> io_return [SetInstance (newInstanceDoc env instanceData newInstanceId)]
       | Some t \<Rightarrow>
           io_bind (getTaskTemplates env) (\<lambda>allTaskTemplates.
             materializeLoop env instanceData newInstanceId allTaskTemplates
               (wt_taskTemplateIds t)
               [SetInstance (newInstanceDoc env instanceData newInstanceId)]))"

text \<open>\<open>set\<close> on a reference: the document is replaced when the id exists, added otherwise.\<close>

definition setInstanceDoc :: "WorkflowInstance \<Rightarrow> WorkflowInstance list \<Rightarrow> WorkflowInstance list"
where
  "setInstanceDoc d ds =
     (if list_ex (\<lambda>x. wi_id x = wi_id d) ds
      then map (\<lambda>x. if wi_id x = wi_id d then d else x) ds else ds @ [d])"

definition setTaskDoc :: "Task \<Rightarrow> Task list \<Rightarrow> Task list" where
  "setTaskDoc d ds =
     (if list_ex (\<lambda>x. tk_id x = tk_id d) ds
      then map (\<lambda>x. if tk_id x = tk_id d then d else x) ds else ds @ [d])"

fun applyWrite :: "int \<Rightarrow> store \<Rightarrow> batchWrite \<Rightarrow> store" where
  "applyWrite t st (SetInstance i) =
     st\<lparr>workflowInstances :=
          setInstanceDoc (i\<lparr>wi_startDatetime := resolveTime t (wi_startDatetime i),
                           wi_createdAt := resolveTime t (wi_createdAt i),
                           wi_updatedAt := resolveTime t (wi_updatedAt i)\<rparr>)
            (workflowInstances st)\<rparr>"
| "applyWrite t st (SetTask k) =
     st\<lparr>tasks :=
          setTaskDoc (k\<lparr>tk_createdAt := resolveTime t (tk_createdAt k),
                       tk_updatedAt := resolveTime t (tk_updatedAt k)\<rparr>)
            (tasks st)\<rparr>"

text \<open>
  \<open>batch.commit()\<close>: one SDK call; when it fails nothing is written, when it succeeds every
  write of the batch is applied, in order, with one server time.
\<close>

definition batchCommit :: "env \<Rightarrow> batchWrite list \<Rightarrow> unit io" where
  "batchCommit env batch =
     (\<lambda>w0. io_bind (sdkCall env) (\<lambda>_ w.
        (Inr (), w\<lparr>db := foldl (applyWrite (serverTime env (tick w0))) (db w) batch\<rparr>)) w0)"

definition addWorkflowInstance :: "env \<Rightarrow> AddWorkflowInstancePayload \<Rightarrow> WorkflowInstance io" where
  "addWorkflowInstance env instanceData =
     io_bind (newDocId env) (\<lambda>newInstanceId.
       io_bind (buildBatch env instanceData newInstanceId) (\<lambda>batch.
         io_bind (batchCommit env batch) (\<lambda>_.
           io_bind (getWorkflowInstanceDoc env newInstanceId) (\<lambda>newInstanceSnap.
             case newInstanceSnap of
               None \<Rightarrow> io_throw (AppError ''Workflow instance not found after creation'')
             | Some i \<Rightarrow> io_return i))))"

text \<open>The payload of an \<open>updateDoc\<close> on a workflow instance.\<close>

record InstanceUpdate =
  iu_status :: "WorkflowInstanceStatus option"
  iu_finishDatetime :: "timeval option"
  iu_isArchived :: "bool option"
  iu_updatedAt :: "timeval option"

definition applyInstanceUpdate :: "int \<Rightarrow> InstanceUpdate \<Rightarrow> WorkflowInstance \<Rightarrow> WorkflowInstance"
where
  "applyInstanceUpdate t u i =
     i\<lparr>wi_status := (case iu_status u of None \<Rightarrow> wi_status i | Some s \<Rightarrow> s),
       wi_finishDatetime :=
         (case iu_finishDatetime u of None \<Rightarrow> wi_finishDatetime i
          | Some x \<Rightarrow> Some (resolveTime t x)),
       wi_isArchived := (case iu_isArchived u of None \<Rightarrow> wi_isArchived i | Some b \<Rightarrow> b),
       wi_updatedAt :=
         (case iu_updatedAt u of None \<Rightarrow> wi_updatedAt i | Some x \<Rightarrow> resolveTime t x)\<rparr>"

definition updateInstanceDoc :: "env \<Rightarrow> string \<Rightarrow> InstanceUpdate \<Rightarrow> unit io" where
  "updateInstanceDoc env instanceId u =
     (\<lambda>w0. io_bind (sdkCall env) (\<lambda>_ w.
        if list_ex (\<lambda>i. wi_id i = instanceId) (workflowInstances (db w))
        then (Inr (),
              w\<lparr>db := (db w)\<lparr>workflowInstances :=
                 map (\<lambda>i. if wi_id i = instanceId
                           then applyInstanceUpdate (serverTime env (tick w0)) u i else i)
                     (workflowInstances (db w))\<rparr>\<rparr>)
        else (Inl FirestoreNotFound, w)) w0)"

text \<open>
  \<open>finishDatetime\<close> is the instant the caller passes (an ISO string in the source, turned
  back into a time stamp with \<open>Timestamp.fromDate\<close>, which may throw); it is written only
  together with the status \<open>Completed\<close>.
\<close>

definition finishTimestamp ::
  "WorkflowInstanceStatus \<Rightarrow> int option \<Rightarrow> error + timeval option" where
  "finishTimestamp status finishDatetime =
     (case finishDatetime of
        None \<Rightarrow> Inr None
      | Some ft \<Rightarrow>
          if status = COMPLETED then
            (case timestampFromMillis ft of
               Inl e \<Rightarrow> Inl e
             | Inr ts \<Rightarrow> Inr (Some ts))
          else Inr None)"

definition updateWorkflowInstanceStatus ::
  "env \<Rightarrow> string \<Rightarrow> WorkflowInstanceStatus \<Rightarrow> int option \<Rightarrow> WorkflowInstance option io" where
  "updateWorkflowInstanceStatus env instanceId status finishDatetime =
     (case finishTimestamp status finishDatetime of
        Inl e \<Rightarrow> io_throw e
      | Inr finish \<Rightarrow>
          io_bind (updateInstanceDoc env instanceId
             \<lparr>iu_status = Some status,
              iu_finishDatetime = finish,
              iu_isArchived = None,
              iu_updatedAt = Some ServerTimestamp\<rparr>) (\<lambda>_.
            getWorkflowInstanceDoc env instanceId))"

section \<open>The validator built from a field list (\<open>createDynamicDataSchema\<close>)\<close>

text \<open>
  A schema of the validation library is the set of values it accepts.  Two things belong to
  the library and the language rather than to this program and are parameters: the format
  test behind \<open>.email()\<close>, and whether \<open>Number(v)\<close> is \<open>NaN\<close> (the coercion of
  \<open>z.coerce.number()\<close>).
\<close>

record jslib =
  emailFormat :: "string \<Rightarrow> bool"
  numberIsNaN :: "jsval \<Rightarrow> bool"

type_synonym zschema = "jsval \<Rightarrow> bool"

definition zString :: zschema where
  "zString v = isString v"

definition zEmail :: "jslib \<Rightarrow> zschema \<Rightarrow> zschema" where
  "zEmail lib s v = (s v \<and> emailFormat lib (theString v))"

definition zMin1 :: "zschema \<Rightarrow> zschema" where
  "zMin1 s v = (s v \<and> 1 \<le> length (theString v))"

definition zArrayOfString :: zschema where
  "zArrayOfString v = (case v of Arr xs \<Rightarrow> list_all isString xs | _ \<Rightarrow> False)"

definition zNonempty :: "zschema \<Rightarrow> zschema" where
  "zNonempty s v = (s v \<and> (case v of Arr xs \<Rightarrow> xs \<noteq> [] | _ \<Rightarrow> False))"

definition zBoolean :: zschema where
  "zBoolean v = (case v of Bool b \<Rightarrow> True | _ \<Rightarrow> False)"

definition zAnyNullable :: zschema where
  "zAnyNullable v = True"

definition zCoerceNumberNullable :: "jslib \<Rightarrow> zschema" where
  "zCoerceNumberNullable lib v = (v = Null \<or> \<not> numberIsNaN lib v)"

definition zRefine :: "zschema \<Rightarrow> (jsval \<Rightarrow> bool) \<Rightarrow> zschema" where
  "zRefine s p v = (s v \<and> p v)"

definition zOptionalNullable :: "zschema \<Rightarrow> zschema" where
  "zOptionalNullable s v = (v = Null \<or> v = Undefined \<or> s v)"

text \<open>
  The schema of one field: the \<open>switch\<close> on the type, then the required or optional rule.
  For a number field the base schema is \<open>z.coerce.number().nullable()\<close>, a nullable
  wrapper, which has no \<open>min\<close> or \<open>max\<close> method: with either bound configured the call
  throws.  The \<open>default\<close> branch of the \<open>switch\<close> is not reached by any of the eleven
  kinds.
\<close>

definition baseFieldSchema :: "jslib \<Rightarrow> DynamicField \<Rightarrow> error + zschema" where
  "baseFieldSchema lib field =
     (if f_type field \<in> {TEXT_INPUT, TEXT_AREA, DROPDOWN_LIST, RADIO_BUTTON_GROUP}
      then Inr (if f_ruleEmail field then zEmail lib zString else zString)
      else if f_type field = DOCUMENT_UPLOAD then Inr zAnyNullable
      else if f_type field = NUMBER then
        (if f_ruleMin field \<noteq> None then Inl (TypeError ''fieldSchema.min is not a function'')
         else if f_ruleMax field \<noteq> None then Inl (TypeError ''fieldSchema.max is not a function'')
         else Inr (zCoerceNumberNullable lib))
      else if f_type field \<in> {DATE, TIME, DATETIME} then Inr zString
      else if f_type field = CHECKBOX_GROUP then Inr zArrayOfString
      else Inr zBoolean)"

definition requiredRule :: "DynamicField \<Rightarrow> zschema \<Rightarrow> zschema" where
  "requiredRule field fieldSchema =
     (if f_isRequired field then
        (if f_type field \<in> {TEXT_INPUT, TEXT_AREA, DROPDOWN_LIST, RADIO_BUTTON_GROUP,
                              DATE, TIME, DATETIME}
         then zMin1 fieldSchema
         else if f_type field = CHECKBOX_GROUP then zNonempty fieldSchema
         else if f_type field = DOCUMENT_UPLOAD
         then zRefine fieldSchema (\<lambda>v. v \<noteq> Null \<and> v \<noteq> Undefined \<and> v \<noteq> Str [])
         else if f_type field = NUMBER
         then zRefine fieldSchema (\<lambda>v. v \<noteq> Null \<and> v \<noteq> Undefined)
         else fieldSchema)
      else zOptionalNullable fieldSchema)"

definition buildFieldSchema :: "jslib \<Rightarrow> DynamicField \<Rightarrow> error + zschema" where
  "buildFieldSchema lib field =
     (case baseFieldSchema lib field of
        Inl e \<Rightarrow> Inl e
      | Inr fieldSchema \<Rightarrow> Inr (requiredRule field fieldSchema))"

text \<open>\<open>schemaShape[field.name] = fieldSchema\<close>: a later field of the same name overrides.\<close>

fun setShape :: "(string \<times> zschema) list \<Rightarrow> string \<Rightarrow> zschema \<Rightarrow> (string \<times> zschema) list" where
  "setShape [] k s = [(k, s)]"
| "setShape ((k', s') # rest) k s =
     (if k' = k then (k, s) # rest else (k', s') # setShape rest k s)"

fun buildShape ::
  "jslib \<Rightarrow> DynamicField list \<Rightarrow> (string \<times> zschema) list \<Rightarrow> error + (string \<times> zschema) list"
where
  "buildShape lib [] schemaShape = Inr schemaShape"
| "buildShape lib (field # rest) schemaShape =
     (case buildFieldSchema lib field of
        Inl e \<Rightarrow> Inl e
      | Inr fieldSchema \<Rightarrow> buildShape lib rest (setShape schemaShape (f_name field) fieldSchema))"

definition createDynamicDataSchema ::
  "jslib \<Rightarrow> DynamicField list \<Rightarrow> error + (string \<times> zschema) list" where
  "createDynamicDataSchema lib fs = buildShape lib fs []"

text \<open>
  \<open>createDynamicTaskDataSchema\<close> in the task form is the same text as
  \<open>createDynamicDataSchema\<close> in the entry dialog.
\<close>

definition createDynamicTaskDataSchema ::
  "jslib \<Rightarrow> DynamicField list \<Rightarrow> error + (string \<times> zschema) list" where
  "createDynamicTaskDataSchema lib fs = buildShape lib fs []"

text \<open>
  Parsing a value set with the object schema: the key \<open>n\<close> gets an error when the schema
  of \<open>n\<close> does not accept the value of \<open>n\<close>; the value set is valid when no key of the
  shape gets one.
\<close>

definition fieldAccepted :: "(string \<times> zschema) list \<Rightarrow> jsobject \<Rightarrow> string \<Rightarrow> bool" where
  "fieldAccepted schemaShape vals n =
     (case map_of schemaShape n of None \<Rightarrow> True | Some s \<Rightarrow> s (getProp vals n))"

definition schemaValid :: "(string \<times> zschema) list \<Rightarrow> jsobject \<Rightarrow> bool" where
  "schemaValid schemaShape vals =
     list_all (\<lambda>ks. snd ks (getProp vals (fst ks))) schemaShape"

section \<open>Default values of the forms\<close>

text \<open>The entry dialog: the loop of the effect over the fields, on \<open>{...initialData}\<close>.\<close>

definition dialogFieldDefault :: "DynamicField \<Rightarrow> jsobject \<Rightarrow> jsobject" where
  "dialogFieldDefault field defaultValues =
     (if getProp defaultValues (f_name field) = Undefined then
        (if f_type field = BOOLEAN_TOGGLE
         then setProp defaultValues (f_name field) (nullish (f_defaultValue field) (Bool False))
         else if f_type field = CHECKBOX_GROUP
         then setProp defaultValues (f_name field) (nullish (f_defaultValue field) (Arr []))
         else if f_type field = DOCUMENT_UPLOAD
         then setProp defaultValues (f_name field) Null
         else setProp defaultValues (f_name field)
                (nullish (f_defaultValue field)
                   (if f_type field = NUMBER then Null else Str [])))
      else defaultValues)"

text \<open>
  The values the dialog resets the form to; there is no reset without a table or without
  fields.
\<close>

definition dialogDefaultValues ::
  "DynamicTable option \<Rightarrow> DynamicField list \<Rightarrow> jsobject option \<Rightarrow> jsobject option" where
  "dialogDefaultValues table fs initialData =
     (if table \<noteq> None \<and> 0 < length fs
      then Some (foldl (\<lambda>dv field. dialogFieldDefault field dv)
                   (case initialData of None \<Rightarrow> [] | Some d \<Rightarrow> d) fs)
      else None)"

text \<open>The task form: the loop over \<open>tableFields\<close>, on \<open>{...task.dynamicTableData}\<close>.\<close>

definition taskFormFieldDefault :: "DynamicField \<Rightarrow> jsobject \<Rightarrow> jsobject" where
  "taskFormFieldDefault field defaults =
     (if getProp defaults (f_name field) = Undefined \<and> f_defaultValue field \<noteq> Undefined then
        (if f_type field = BOOLEAN_TOGGLE
         then setProp defaults (f_name field) (nullish (f_defaultValue field) (Bool False))
         else if f_type field = CHECKBOX_GROUP
         then setProp defaults (f_name field) (nullish (f_defaultValue field) (Arr []))
         else if f_type field = DOCUMENT_UPLOAD
         then setProp defaults (f_name field) Null
         else setProp defaults (f_name field)
                (nullish (f_defaultValue field)
                   (if f_type field = NUMBER then Null else Str [])))
      else if getProp defaults (f_name field) = Undefined \<and> f_type field = DOCUMENT_UPLOAD
      then setProp defaults (f_name field) Null
      else defaults)"

definition taskFormDefaults :: "jsobject \<Rightarrow> DynamicField list \<Rightarrow> jsobject" where
  "taskFormDefaults dynamicTableData tableFields =
     foldl (\<lambda>defaults field. taskFormFieldDefault field defaults) dynamicTableData tableFields"

section \<open>The workflow page (\<open>handleMarkComplete\<close>, \<open>handleTaskCompleted\<close>)\<close>

text \<open>
  The state of the page component: the instance and the tasks it holds, and whether the UI
  library has a state update of the component pending (queued and not yet rendered).
\<close>

record pageState =
  pg_instance :: "WorkflowInstance option"
  pg_tasks :: "Task list"
  pg_updatePending :: bool

text \<open>
  \<open>handleTaskCompleted\<close> computes \<open>allTasksAreNowComplete\<close> inside the function it passes
  to \<open>setTasks\<close> and reads it right after the call.  The UI library runs that function
  inside the call when the component has no update pending, and queues it for the next
  render otherwise; in the second case the variable still has its initial \<open>false\<close> when
  it is read.  Either way an update is pending afterwards, and \<open>pg_tasks\<close> is the list the
  function gives.  The promise of \<open>updateWorkflowInstanceStatus\<close> is followed to its end:
  the saved instance replaces the one of the page, a failure is reported and changes
  nothing more.
\<close>

definition handleTaskCompleted ::
  "env \<Rightarrow> Task \<Rightarrow> pageState \<Rightarrow> world \<Rightarrow> pageState \<times> world" where
  "handleTaskCompleted env completedTask pg w =
     (let newTasks =
            map (\<lambda>t. if tk_id t = tk_id completedTask
                      then completedTask\<lparr>tk_status := TASK_COMPLETED,
                                         tk_finishDatetime := Some (At (dateNow env (tick w)))\<rparr>
                      else t) (pg_tasks pg);
          allTasksAreNowComplete =
            (\<not> pg_updatePending pg \<and> list_all (\<lambda>t. tk_status t = TASK_COMPLETED) newTasks);
          pg1 = pg\<lparr>pg_tasks := newTasks, pg_updatePending := True\<rparr>
      in case pg_instance pg of
           None \<Rightarrow> (pg1, w)
         | Some inst \<Rightarrow>
             if allTasksAreNowComplete \<and> wi_status inst \<noteq> COMPLETED then
               (case updateWorkflowInstanceStatus env (wi_id inst) COMPLETED
                       (Some (dateNow env (tick w))) w of
                  (Inr (Some savedInstance), w') \<Rightarrow>
                     (pg1\<lparr>pg_instance := Some savedInstance\<rparr>, w')
                | (Inr None, w') \<Rightarrow> (pg1, w')
                | (Inl e, w') \<Rightarrow> (pg1, w'))
             else (pg1, w))"

text \<open>
  \<open>handleMarkComplete\<close> of the task form; \<open>isWorkflowArchived\<close> is the flag of the page's
  instance.
\<close>

definition handleMarkComplete ::
  "env \<Rightarrow> Task \<Rightarrow> pageState \<Rightarrow> world \<Rightarrow> pageState \<times> world" where
  "handleMarkComplete env task pg w =
     (if (case pg_instance pg of None \<Rightarrow> False | Some inst \<Rightarrow> wi_isArchived inst)
      then (pg, w)
      else case completeTask env (tk_id task) None w of
             (Inr completedTask, w1) \<Rightarrow> handleTaskCompleted env completedTask pg w1
           | (Inl e, w1) \<Rightarrow> (pg, w1))"

section \<open>The table page (\<open>loadData\<close>)\<close>

text \<open>
  The fields the table page shows and hands to the entry dialog: the fields of the table
  that are not archived, in the order of the table's \<open>fieldIds\<close>.  The dialog builds its
  validator and its form from these fields, and the page passes what the dialog submits,
  with the data of the entry being edited, to \<open>updateDynamicTableEntry\<close>.
\<close>

definition pageActiveFields :: "DynamicTable \<Rightarrow> DynamicField list \<Rightarrow> DynamicField list" where
  "pageActiveFields tableData allFieldsData =
     List.map_filter
       (\<lambda>i. find (\<lambda>f. f_id f = i)
              (filter (\<lambda>f. f_id f \<in> set (t_fieldIds tableData) \<and> \<not> f_isArchived f)
                 allFieldsData))
       (t_fieldIds tableData)"

section \<open>Auxiliary notions for the statements\<close>

text \<open>The value the entry codec stores for the document-upload property \<open>n\<close>.\<close>

definition entryFieldValue ::
  "env \<Rightarrow> string \<Rightarrow> string \<Rightarrow> jsobject \<Rightarrow> jsobject \<Rightarrow> string \<Rightarrow> jsval" where
  "entryFieldValue env tableId entryId newData currentData n =
     (if isFile (getProp newData n)
      then Str (fullPath env (joinSlash [''dynamicTableEntries'', tableId, entryId, n,
                                          fileName (theFile (getProp newData n))]))
      else if getProp newData n = Null \<or> getProp newData n = Undefined \<or> getProp newData n = Str []
      then Null
      else if isString (getProp newData n) then getProp newData n
      else jsOr (getProp currentData n) Null)"

text \<open>The value the task codec stores for the document-upload property \<open>n\<close>.\<close>

definition taskFieldValue ::
  "env \<Rightarrow> string \<Rightarrow> string \<Rightarrow> jsobject \<Rightarrow> jsobject \<Rightarrow> string \<Rightarrow> jsval" where
  "taskFieldValue env workflowInstanceId taskId newData currentTaskData n =
     (if isFile (getProp newData n)
      then Str (fullPath env (joinSlash [''taskAttachments'', workflowInstanceId, taskId, n,
                                          fileName (theFile (getProp newData n))]))
      else if (getProp newData n = Null \<or> getProp newData n = Undefined \<or> getProp newData n = Str [])
              \<and> isString (getProp currentTaskData n) \<and> truthy (getProp currentTaskData n)
      then Null
      else if isString (getProp newData n) then getProp newData n
      else jsOr (getProp currentTaskData n) Null)"

text \<open>The fields \<open>fieldsForTask\<close> finds for a task on a given database.\<close>

definition taskTableFields :: "store \<Rightarrow> Task \<Rightarrow> DynamicField list" where
  "taskTableFields st task =
     (if optTruthy (tk_dynamicTableId task) then
        (case find (\<lambda>t. t_id t = the (tk_dynamicTableId task)) (dynamicTables st) of
           None \<Rightarrow> []
         | Some td \<Rightarrow>
             if \<not> t_isArchived td
             then filter (\<lambda>f. f_id f \<in> set (t_fieldIds td) \<and> \<not> f_isArchived f) (dynamicFields st)
             else [])
      else [])"




text \<open>
  Whether a built validator accepts the value of the key \<open>n\<close>; there is nothing to accept
  with when building the validator threw.
\<close>

definition validatorAccepts ::
  "error + (string \<times> zschema) list \<Rightarrow> jsobject \<Rightarrow> string \<Rightarrow> bool" where
  "validatorAccepts built vals n =
     (case built of Inl e \<Rightarrow> False | Inr schemaShape \<Rightarrow> fieldAccepted schemaShape vals n)"

text \<open>
  The names of the document-upload fields among \<open>fs\<close>: the properties a codec run over
  \<open>fs\<close> computes.
\<close>

definition docFieldNames :: "DynamicField list \<Rightarrow> string list" where
  "docFieldNames fs = map f_name (filter (\<lambda>f. f_type f = DOCUMENT_UPLOAD) fs)"

text \<open>
  A value set the database can hold once the codec has run over the document-upload
  properties \<open>docNames\<close>: these names and the keys of the value set are keys the database
  takes, and every value is one it takes, except that a document-upload property may hold a
  \<open>File\<close>.
\<close>

definition valuesStorable :: "string list \<Rightarrow> jsobject \<Rightarrow> bool" where
  "valuesStorable docNames vals =
     (list_all firestoreKey docNames
      \<and> list_all (\<lambda>k. firestoreKey k
                      \<and> (firestoreValue (getProp vals k)
                           \<or> (isFile (getProp vals k) \<and> k \<in> set docNames)))
            (map fst vals))"

text \<open>The fields \<open>updateDynamicTableEntry\<close> runs its codec over, on a given database.\<close>

definition entryTableFields :: "store \<Rightarrow> string \<Rightarrow> DynamicField list" where
  "entryTableFields st tableId =
     (case find (\<lambda>t. t_id t = tableId) (dynamicTables st) of
        None \<Rightarrow> []
      | Some td \<Rightarrow> filter (\<lambda>f. f_id f \<in> set (t_fieldIds td)) (dynamicFields st))"






section \<open>A small system for the examples\<close>

text \<open>
  One table with a document field and one row, three task templates (one with an offset of
  two days and the table, one with the offset 0, one archived), a workflow template over the
  three, a running instance with one completed and one pending task, and the stored file of
  the row.  At the SDK call number \<open>k\<close> the client clock reads \<open>1000 + k\<close> and the server
  clock \<open>5000 + k\<close>.
\<close>

definition demoEnv :: env where
  "demoEnv = \<lparr>fault = (\<lambda>k. False), dateNow = (\<lambda>k. 1000 + int k),
              serverTime = (\<lambda>k. 5000 + int k),
              autoId = (\<lambda>k. ''id'' @ replicate k CHR ''x''), fullPath = (\<lambda>p. p),
              currentUserUid = Some ''u1''\<rparr>"

text \<open>The same, with the third SDK call failing in transport.\<close>

definition faultyEnv :: env where
  "faultyEnv = demoEnv\<lparr>fault := (\<lambda>k. k = 2)\<rparr>"

definition docField :: DynamicField where
  "docField = \<lparr>f_id = ''f1'', f_name = ''doc'', f_label = ''Document'',
               f_type = DOCUMENT_UPLOAD, f_ruleEmail = False, f_ruleMin = None,
               f_ruleMax = None, f_isRequired = False, f_defaultValue = Undefined,
               f_isArchived = False\<rparr>"

definition flagField :: DynamicField where
  "flagField = \<lparr>f_id = ''f2'', f_name = ''flag'', f_label = ''Flag'',
                f_type = BOOLEAN_TOGGLE, f_ruleEmail = False, f_ruleMin = None,
                f_ruleMax = None, f_isRequired = False, f_defaultValue = Undefined,
                f_isArchived = False\<rparr>"

definition mailField :: DynamicField where
  "mailField = \<lparr>f_id = ''f3'', f_name = ''mail'', f_label = ''Mail'',
                f_type = TEXT_INPUT, f_ruleEmail = True, f_ruleMin = None,
                f_ruleMax = None, f_isRequired = True, f_defaultValue = Undefined,
                f_isArchived = False\<rparr>"

definition titleField :: DynamicField where
  "titleField = \<lparr>f_id = ''f4'', f_name = ''title'', f_label = ''Title'',
                 f_type = TEXT_INPUT, f_ruleEmail = False, f_ruleMin = None,
                 f_ruleMax = None, f_isRequired = True, f_defaultValue = Undefined,
                 f_isArchived = False\<rparr>"

definition tagsField :: DynamicField where
  "tagsField = \<lparr>f_id = ''f5'', f_name = ''tags'', f_label = ''Tags'',
                f_type = CHECKBOX_GROUP, f_ruleEmail = False, f_ruleMin = None,
                f_ruleMax = None, f_isRequired = True, f_defaultValue = Undefined,
                f_isArchived = False\<rparr>"

text \<open>An email format test that asks for no more than an \<open>@\<close>.\<close>

definition hasAtSign :: "string \<Rightarrow> bool" where
  "hasAtSign s = (CHR ''@'' \<in> set s)"

definition demoLib :: jslib where
  "demoLib = \<lparr>emailFormat = hasAtSign, numberIsNaN = (\<lambda>v. \<not> (case v of Num n \<Rightarrow> True | _ \<Rightarrow> False))\<rparr>"

definition demoTable :: DynamicTable where
  "demoTable = \<lparr>t_id = ''t1'', t_name = ''docs'', t_fieldIds = [''f1''], t_isArchived = False\<rparr>"

definition demoEntry :: DynamicTableRowData where
  "demoEntry = \<lparr>e_id = ''e1'', e_data = [(''doc'', Str ''files/a.png'')],
                e_isArchived = False, e_updatedAt = At 0\<rparr>"

definition demoFile :: jsfile where
  "demoFile = \<lparr>fileName = ''b.png'', fileBytes = ''new''\<rparr>"

definition ttA :: TaskTemplate where
  "ttA = \<lparr>tt_id = ''ttA'', tt_name = ''Collect'', tt_dueDateOffsetDays = Some 2,
          tt_dynamicTableId = Some ''t1'', tt_isArchived = False\<rparr>"

definition ttB :: TaskTemplate where
  "ttB = \<lparr>tt_id = ''ttB'', tt_name = ''Review'', tt_dueDateOffsetDays = Some 0,
          tt_dynamicTableId = None, tt_isArchived = False\<rparr>"

definition ttC :: TaskTemplate where
  "ttC = \<lparr>tt_id = ''ttC'', tt_name = ''Retired'', tt_dueDateOffsetDays = None,
          tt_dynamicTableId = None, tt_isArchived = True\<rparr>"

definition demoTemplate :: WorkflowTemplate where
  "demoTemplate = \<lparr>wt_id = ''wt1'', wt_name = ''Onboarding'',
                   wt_taskTemplateIds = [''ttA'', ''ttB'', ''ttC''], wt_isArchived = False\<rparr>"

definition demoInstance :: WorkflowInstance where
  "demoInstance = \<lparr>wi_id = ''i1'', wi_workflowTemplateId = ''wt1'', wi_name = ''First'',
                   wi_status = ACTIVE, wi_startedByUserId = Some ''u1'',
                   wi_startDatetime = At 0, wi_finishDatetime = None,
                   wi_associatedData = [], wi_isArchived = False,
                   wi_createdAt = At 0, wi_updatedAt = At 0\<rparr>"

definition demoTask :: Task where
  "demoTask = \<lparr>tk_id = ''k1'', tk_taskTemplateId = ''ttA'', tk_workflowInstanceId = ''i1'',
               tk_assignedToUserId = Some ''u1'', tk_status = PENDING, tk_dueDate = None,
               tk_startDatetime = None, tk_finishDatetime = None, tk_notes = None,
               tk_dynamicTableId = Some ''t1'',
               tk_dynamicTableData = [(''doc'', Str ''files/a.png'')],
               tk_createdAt = At 0, tk_updatedAt = At 0\<rparr>"

definition doneTask :: Task where
  "doneTask = \<lparr>tk_id = ''k0'', tk_taskTemplateId = ''ttB'', tk_workflowInstanceId = ''i1'',
               tk_assignedToUserId = Some ''u1'', tk_status = TASK_COMPLETED, tk_dueDate = None,
               tk_startDatetime = Some (At 10), tk_finishDatetime = Some (At 20),
               tk_notes = None, tk_dynamicTableId = None, tk_dynamicTableData = [],
               tk_createdAt = At 0, tk_updatedAt = At 20\<rparr>"

definition demoWorld :: world where
  "demoWorld =
     \<lparr>db = \<lparr>dynamicFields = [docField], dynamicTables = [demoTable],
             tableEntries = [(''t1'', demoEntry)], taskTemplates = [ttA, ttB, ttC],
             workflowTemplates = [demoTemplate], workflowInstances = [demoInstance],
             tasks = [doneTask, demoTask]\<rparr>,
      objects = [(''files/a.png'', \<lparr>fileName = ''a.png'', fileBytes = ''old''\<rparr>)],
      tick = 0, idCount = 0\<rparr>"

definition demoPayload :: AddWorkflowInstancePayload where
  "demoPayload = \<lparr>p_workflowTemplateId = ''wt1'', p_name = ''Second'',
                  p_associatedData = Some [(''t1'', ''e1'')],
                  p_taskAssignments = [(''ttA'', ''u1'')], p_startedByUserId = None\<rparr>"


text \<open>
  The same system later on: the table has got a title field, the row a title, and the
  document field has been archived.  The file of the row is still in the storage.
\<close>

definition archivedDocField :: DynamicField where
  "archivedDocField = docField\<lparr>f_isArchived := True\<rparr>"

definition titledTable :: DynamicTable where
  "titledTable = demoTable\<lparr>t_fieldIds := [''f1'', ''f4'']\<rparr>"

definition titledEntry :: DynamicTableRowData where
  "titledEntry = demoEntry\<lparr>e_data := [(''doc'', Str ''files/a.png''), (''title'', Str ''Report'')]\<rparr>"

definition archivedDocWorld :: world where
  "archivedDocWorld =
     demoWorld\<lparr>db := (db demoWorld)\<lparr>dynamicFields := [archivedDocField, titleField],
                                       dynamicTables := [titledTable],
                                       tableEntries := [(''t1'', titledEntry)]\<rparr>\<rparr>"

text \<open>
  The small system with a stored path that is only white space, in the row and in the
  pending task, and a storage object of that name.
\<close>

definition blankPathWorld :: world where
  "blankPathWorld =
     demoWorld\<lparr>db := (db demoWorld)\<lparr>
                  tableEntries := [(''t1'', demoEntry\<lparr>e_data := [(''doc'', Str ''  '')]\<rparr>)],
                  tasks := [doneTask, demoTask\<lparr>tk_dynamicTableData := [(''doc'', Str ''  '')]\<rparr>]\<rparr>,
               objects := [(''  '', \<lparr>fileName = ''a.png'', fileBytes = ''old''\<rparr>)]\<rparr>"

section \<open>Basic facts\<close>

lemma getProp_setProp: "getProp (setProp obj k v) k' = (if k' = k then v else getProp obj k')"
  by (induction obj k v rule: setProp.induct) (auto simp: getProp_def)

lemma keys_setProp: "fst ` set (setProp obj k v) = insert k (fst ` set obj)"
  by (induction obj k v rule: setProp.induct) auto

lemma getProp_absent: "k \<notin> fst ` set obj \<Longrightarrow> getProp obj k = Undefined"
  by (simp add: getProp_def map_of_eq_None_iff[THEN iffD2])

lemma firestoreMap_iff:
  "firestoreMap obj
     \<longleftrightarrow> (\<forall>k \<in> fst ` set obj. firestoreKey k \<and> firestoreValue (getProp obj k))"
  by (simp add: firestoreMap_def list_all_iff)

lemma firestoreMap_truthy:
  assumes "firestoreMap obj" "truthy (getProp obj k)"
  shows "firestoreValue (getProp obj k)"
proof (cases "k \<in> fst ` set obj")
  case True
  then show ?thesis using assms(1) unfolding firestoreMap_iff by blast
next
  case False
  then show ?thesis using assms(2) by (simp add: getProp_absent)
qed

lemma firestoreValue_simps:
  "firestoreValue Null" "firestoreValue (Str s)" "firestoreValue (Num x)"
  "firestoreValue (Bool b)" "\<not> firestoreValue Undefined" "\<not> firestoreValue (FileV f)"
  by (simp_all add: firestoreValue_def)

lemma isString_storable: "isString v \<Longrightarrow> firestoreValue v"
  by (cases v) (simp_all add: firestoreValue_def)

lemma stored_or_null_storable:
  assumes "firestoreMap obj"
  shows "firestoreValue (jsOr (getProp obj k) Null)"
  using firestoreMap_truthy[OF assms, of k] by (simp add: jsOr_def firestoreValue_simps)

lemma filter_absent_key: "p \<notin> fst ` set xs \<Longrightarrow> filter (\<lambda>ob. fst ob \<noteq> p) xs = xs"
  by (induction xs) auto

lemma find_map_update:
  assumes "\<And>x. P x \<Longrightarrow> P (g x)"
  shows "find P (map (\<lambda>x. if P x then g x else x) xs) = map_option g (find P xs)"
  using assms by (induction xs) auto

lemma list_ex_find: "list_ex P xs \<longleftrightarrow> find P xs \<noteq> None"
  by (induction xs) auto

lemma not_blank_nonempty: "\<not> trimIsEmpty p \<Longrightarrow> p \<noteq> []"
  by (auto simp: trimIsEmpty_def)

lemma mem_docFieldNames:
  "n \<in> set (docFieldNames fs) \<longleftrightarrow> (\<exists>f \<in> set fs. f_type f = DOCUMENT_UPLOAD \<and> f_name f = n)"
  by (auto simp: docFieldNames_def)



lemmas io_defs = io_bind_def io_return_def io_catch_def io_throw_def sdkCall_def

section \<open>Storage helpers without transport faults\<close>

lemma deleteFileFromStorage_ok:
  assumes "\<not> fault env (tick w)"
  shows "\<exists>w1. deleteFileFromStorage env p w = (Inr (), w1) \<and> db w1 = db w
           \<and> idCount w1 = idCount w
           \<and> tick w1 = (if p = [] \<or> trimIsEmpty p then tick w else Suc (tick w))
           \<and> objects w1 = (if p = [] \<or> trimIsEmpty p then objects w
                            else filter (\<lambda>ob. fst ob \<noteq> fullPath env p) (objects w))"
  using assms
  by (auto simp: deleteFileFromStorage_def deleteObject_def io_defs filter_absent_key)

lemma uploadFileToStorage_ok:
  assumes "\<not> fault env (tick w)"
  shows "uploadFileToStorage env f p w =
           (Inr (fullPath env p),
            w\<lparr>tick := Suc (tick w),
              objects := (fullPath env p, f)
                          # filter (\<lambda>ob. fst ob \<noteq> fullPath env p) (objects w)\<rparr>)"
  using assms
  by (auto simp: uploadFileToStorage_def uploadBytes_def io_defs)

section \<open>The entry codec\<close>

lemma entryFieldValue_storable:
  assumes "firestoreMap currentData"
  shows "firestoreValue (entryFieldValue env tableId entryId newData currentData n)"
  using stored_or_null_storable[OF assms, of n]
  by (simp add: entryFieldValue_def firestoreValue_simps isString_storable)

lemma processed_storable:
  assumes vs: "valuesStorable docNames newData"
      and keys: "fst ` set pd' = fst ` set newData \<union> set docNames"
      and vals: "\<forall>n. getProp pd' n = (if n \<in> set docNames then V n else getProp newData n)"
      and V: "\<forall>n. firestoreValue (V n)"
  shows "firestoreMap pd'"
  unfolding firestoreMap_iff
proof
  fix k assume k: "k \<in> fst ` set pd'"
  show "firestoreKey k \<and> firestoreValue (getProp pd' k)"
  proof (cases "k \<in> set docNames")
    case True
    then have "firestoreKey k" using vs by (auto simp: valuesStorable_def list_all_iff)
    then show ?thesis using True vals V by simp
  next
    case False
    then have "k \<in> fst ` set newData" using k keys by auto
    then have "firestoreKey k \<and> (firestoreValue (getProp newData k)
                  \<or> (isFile (getProp newData k) \<and> k \<in> set docNames))"
      using vs by (auto simp: valuesStorable_def list_all_iff)
    then show ?thesis using False vals by simp
  qed
qed

lemma entryFieldStep_ok:
  assumes nofault: "\<forall>k. \<not> fault env k"
  shows "\<exists>w'. entryFieldStep env tableId entryId newData currentData field processed w
            = (Inr (if f_type field = DOCUMENT_UPLOAD
                    then setProp processed (f_name field)
                           (entryFieldValue env tableId entryId newData currentData (f_name field))
                    else processed), w')
          \<and> db w' = db w \<and> idCount w' = idCount w"
proof (cases "f_type field = DOCUMENT_UPLOAD")
  case False
  then show ?thesis by (simp add: entryFieldStep_def io_return_def)
next
  case True
  let ?old = "getProp currentData (f_name field)"
  let ?del = "if isString ?old \<and> truthy ?old
              then deleteFileFromStorage env (theString ?old) else io_return ()"
  have "\<exists>w1. ?del w = (Inr (), w1) \<and> db w1 = db w \<and> idCount w1 = idCount w"
  proof (cases "isString ?old \<and> truthy ?old")
    case True
    then show ?thesis
      using deleteFileFromStorage_ok[of env w "theString ?old"] nofault by fastforce
  next
    case False
    then show ?thesis by (auto simp: io_return_def)
  qed
  then obtain w1 where d: "?del w = (Inr (), w1)" "db w1 = db w" "idCount w1 = idCount w"
    by blast
  show ?thesis
    using True d nofault uploadFileToStorage_ok[of env w1]
    by (auto simp: entryFieldStep_def entryFieldValue_def Let_def io_bind_def io_return_def)
qed

lemma entryFieldLoop_ok:
  assumes nofault: "\<forall>k. \<not> fault env k"
  shows "\<exists>pd' w'. entryFieldLoop env tableId entryId newData currentData fs processed w
            = (Inr pd', w')
          \<and> db w' = db w \<and> idCount w' = idCount w
          \<and> fst ` set pd' = fst ` set processed \<union> set (docFieldNames fs)
          \<and> (\<forall>n. getProp pd' n =
                (if n \<in> set (docFieldNames fs)
                 then entryFieldValue env tableId entryId newData currentData n
                 else getProp processed n))"
proof (induction fs arbitrary: processed w)
  case Nil
  then show ?case by (simp add: io_return_def docFieldNames_def)
next
  case (Cons field rest)
  let ?pd1 = "if f_type field = DOCUMENT_UPLOAD
                    then setProp processed (f_name field)
                           (entryFieldValue env tableId entryId newData currentData (f_name field))
                    else processed"
  obtain w1 where s: "entryFieldStep env tableId entryId newData currentData field processed w
            = (Inr ?pd1, w1)" "db w1 = db w" "idCount w1 = idCount w"
    using entryFieldStep_ok[OF nofault] by blast
  obtain pd' w' where l: "entryFieldLoop env tableId entryId newData currentData rest ?pd1 w1
            = (Inr pd', w')" "db w' = db w1" "idCount w' = idCount w1"
     "fst ` set pd' = fst ` set ?pd1 \<union> set (docFieldNames rest)"
     "\<forall>n. getProp pd' n =
                (if n \<in> set (docFieldNames rest)
                 then entryFieldValue env tableId entryId newData currentData n
                 else getProp ?pd1 n)"
    using Cons.IH[of ?pd1 w1] by blast
  have "entryFieldLoop env tableId entryId newData currentData (field # rest) processed w
          = (Inr pd', w')"
    using s l by (simp add: io_bind_def)
  moreover have "\<forall>n. getProp pd' n =
                (if n \<in> set (docFieldNames (field # rest))
                 then entryFieldValue env tableId entryId newData currentData n
                 else getProp processed n)"
    using l(5) by (auto simp: getProp_setProp docFieldNames_def)
  moreover have "fst ` set pd' = fst ` set processed \<union> set (docFieldNames (field # rest))"
    using l(4) by (auto simp: keys_setProp docFieldNames_def)
  ultimately show ?case using s l by auto
qed

lemma entryTableFields_found:
  "find (\<lambda>t. t_id t = tableId) (dynamicTables st) = Some td
   \<Longrightarrow> entryTableFields st tableId = filter (\<lambda>f. f_id f \<in> set (t_fieldIds td)) (dynamicFields st)"
  by (simp add: entryTableFields_def)

lemma updateDynamicTableEntry_ok:
  assumes nofault: "\<forall>k. \<not> fault env k"
      and tbl: "find (\<lambda>t. t_id t = tableId) (dynamicTables (db w)) = Some td"
      and ent: "find (\<lambda>te. fst te = tableId \<and> e_id (snd te) = entryId) (tableEntries (db w))
                  = Some te0"
      and vs: "valuesStorable (docFieldNames (entryTableFields (db w) tableId)) newData"
      and cur: "firestoreMap currentData"
  shows "\<exists>e w'. updateDynamicTableEntry env tableId entryId newData currentData w = (Inr e, w')
          \<and> find (\<lambda>te. fst te = tableId \<and> e_id (snd te) = entryId) (tableEntries (db w'))
              = Some (tableId, e)
          \<and> (\<forall>n. getProp (e_data e) n =
                (if n \<in> set (docFieldNames (entryTableFields (db w) tableId))
                 then entryFieldValue env tableId entryId newData currentData n
                 else getProp newData n))"
proof -
  let ?w2 = "w\<lparr>tick := Suc (Suc (tick w))\<rparr>"
  let ?fs = "filter (\<lambda>f. f_id f \<in> set (t_fieldIds td)) (dynamicFields (db w))"
  have fs: "entryTableFields (db w) tableId = ?fs"
    using tbl by (rule entryTableFields_found)
  obtain pd' w3 where l: "entryFieldLoop env tableId entryId newData currentData ?fs newData ?w2
            = (Inr pd', w3)" "db w3 = db ?w2"
     "fst ` set pd' = fst ` set newData \<union> set (docFieldNames ?fs)"
     "\<forall>n. getProp pd' n =
                (if n \<in> set (docFieldNames ?fs)
                 then entryFieldValue env tableId entryId newData currentData n
                 else getProp newData n)"
    using entryFieldLoop_ok[OF nofault, of tableId entryId newData currentData ?fs newData ?w2]
    by blast
  have ok: "firestoreMap pd'"
    using processed_storable[OF vs[unfolded fs] l(3) l(4)] entryFieldValue_storable[OF cur]
    by blast
  let ?P = "\<lambda>te. fst te = tableId \<and> e_id (snd te) = entryId"
  let ?g = "\<lambda>te. (fst te, (snd te)\<lparr>e_data := pd', e_updatedAt := At (serverTime env (tick w3))\<rparr>)"
  have ex: "list_ex ?P (tableEntries (db w3))"
    using ent l(2) by (simp add: list_ex_find)
  have f: "find ?P (map (\<lambda>te. if ?P te then ?g te else te) (tableEntries (db w3)))
             = Some (?g te0)"
    using ent l(2) by (subst find_map_update) auto
  have te0: "fst te0 = tableId"
    using ent by (auto simp: find_Some_iff)
  have "updateDynamicTableEntry env tableId entryId newData currentData w
          = (Inr (snd (?g te0)),
             w3\<lparr>tick := Suc (Suc (tick w3)),
                db := (db w3)\<lparr>tableEntries :=
                   map (\<lambda>te. if ?P te then ?g te else te) (tableEntries (db w3))\<rparr>\<rparr>)"
    using nofault tbl l(1) ex f ok
    by (simp add: updateDynamicTableEntry_def getDynamicTableById_def getAllDynamicFields_def
                  updateEntryDoc_def getEntryDoc_def io_defs)
  then show ?thesis
    using f l(4) te0 fs by auto
qed

section \<open>The task codec and the task updates\<close>

lemma taskFieldValue_storable:
  assumes "firestoreMap currentData"
  shows "firestoreValue (taskFieldValue env wfid taskId newData currentData n)"
  using stored_or_null_storable[OF assms, of n]
  by (simp add: taskFieldValue_def firestoreValue_simps isString_storable)

lemma taskFieldStep_ok:
  assumes nofault: "\<forall>k. \<not> fault env k"
  shows "\<exists>w'. taskFieldStep env wfid taskId newData currentData field processed w
            = (Inr (if f_type field = DOCUMENT_UPLOAD
                    then setProp processed (f_name field)
                           (taskFieldValue env wfid taskId newData currentData (f_name field))
                    else processed), w')
          \<and> db w' = db w \<and> idCount w' = idCount w"
proof (cases "f_type field = DOCUMENT_UPLOAD")
  case False
  then show ?thesis by (simp add: taskFieldStep_def io_return_def)
next
  case True
  let ?old = "getProp currentData (f_name field)"
  obtain w0 where d0: "deleteFileFromStorage env (theString ?old) w = (Inr (), w0)"
      "db w0 = db w" "idCount w0 = idCount w"
    using deleteFileFromStorage_ok[of env w "theString ?old"] nofault by blast
  let ?del = "if isString ?old \<and> truthy ?old
              then deleteFileFromStorage env (theString ?old) else io_return ()"
  have "\<exists>w1. ?del w = (Inr (), w1) \<and> db w1 = db w \<and> idCount w1 = idCount w"
    using d0 by (auto simp: io_return_def)
  then obtain w1 where d: "?del w = (Inr (), w1)" "db w1 = db w" "idCount w1 = idCount w"
    by blast
  show ?thesis
    using True d d0 nofault uploadFileToStorage_ok[of env w1]
    by (auto simp: taskFieldStep_def taskFieldValue_def Let_def io_bind_def io_return_def)
qed

lemma taskFieldLoop_ok:
  assumes nofault: "\<forall>k. \<not> fault env k"
  shows "\<exists>pd' w'. taskFieldLoop env wfid taskId newData currentData fs processed w
            = (Inr pd', w')
          \<and> db w' = db w \<and> idCount w' = idCount w
          \<and> fst ` set pd' = fst ` set processed \<union> set (docFieldNames fs)
          \<and> (\<forall>n. getProp pd' n =
                (if n \<in> set (docFieldNames fs)
                 then taskFieldValue env wfid taskId newData currentData n
                 else getProp processed n))"
proof (induction fs arbitrary: processed w)
  case Nil
  then show ?case by (simp add: io_return_def docFieldNames_def)
next
  case (Cons field rest)
  let ?pd1 = "if f_type field = DOCUMENT_UPLOAD
                    then setProp processed (f_name field)
                           (taskFieldValue env wfid taskId newData currentData (f_name field))
                    else processed"
  obtain w1 where s: "taskFieldStep env wfid taskId newData currentData field processed w
            = (Inr ?pd1, w1)" "db w1 = db w" "idCount w1 = idCount w"
    using taskFieldStep_ok[OF nofault] by blast
  obtain pd' w' where l: "taskFieldLoop env wfid taskId newData currentData rest ?pd1 w1
            = (Inr pd', w')" "db w' = db w1" "idCount w' = idCount w1"
     "fst ` set pd' = fst ` set ?pd1 \<union> set (docFieldNames rest)"
     "\<forall>n. getProp pd' n =
                (if n \<in> set (docFieldNames rest)
                 then taskFieldValue env wfid taskId newData currentData n
                 else getProp ?pd1 n)"
    using Cons.IH[of ?pd1 w1] by blast
  have "taskFieldLoop env wfid taskId newData currentData (field # rest) processed w
          = (Inr pd', w')"
    using s l by (simp add: io_bind_def)
  moreover have "\<forall>n. getProp pd' n =
                (if n \<in> set (docFieldNames (field # rest))
                 then taskFieldValue env wfid taskId newData currentData n
                 else getProp processed n)"
    using l(5) by (auto simp: getProp_setProp docFieldNames_def)
  moreover have "fst ` set pd' = fst ` set processed \<union> set (docFieldNames (field # rest))"
    using l(4) by (auto simp: keys_setProp docFieldNames_def)
  ultimately show ?case using s l by auto
qed

lemma fieldsForTask_ok:
  assumes nofault: "\<forall>k. \<not> fault env k"
  shows "\<exists>w'. fieldsForTask env task w = (Inr (taskTableFields (db w) task), w')
           \<and> db w' = db w \<and> idCount w' = idCount w"
  using nofault
  by (auto simp: fieldsForTask_def taskTableFields_def getDynamicTableById_def
                 getAllDynamicFields_def io_defs split: option.splits)

lemma getTaskDoc_ok:
  "\<not> fault env (tick w) \<Longrightarrow>
     getTaskDoc env taskId w
       = (Inr (find (\<lambda>t. tk_id t = taskId) (tasks (db w))), w\<lparr>tick := Suc (tick w)\<rparr>)"
  by (simp add: getTaskDoc_def io_defs)

lemma tk_id_applyTaskUpdate: "tk_id (applyTaskUpdate t u task) = tk_id task"
  by (simp add: applyTaskUpdate_def)

lemma updateTaskDoc_ok:
  assumes "\<not> fault env (tick w)" "find (\<lambda>t. tk_id t = taskId) (tasks (db w)) = Some t0"
      and "case u_dynamicTableData u of None \<Rightarrow> True | Some d \<Rightarrow> firestoreMap d"
  shows "\<exists>w'. updateTaskDoc env taskId u w = (Inr (), w')
           \<and> find (\<lambda>t. tk_id t = taskId) (tasks (db w'))
               = Some (applyTaskUpdate (serverTime env (tick w)) u t0)
           \<and> workflowInstances (db w') = workflowInstances (db w)
           \<and> idCount w' = idCount w \<and> objects w' = objects w \<and> tick w' = Suc (tick w)"
proof -
  have ex: "list_ex (\<lambda>t. tk_id t = taskId) (tasks (db w))"
    using assms(2) by (simp add: list_ex_find)
  have f: "find (\<lambda>t. tk_id t = taskId)
             (map (\<lambda>t. if tk_id t = taskId then applyTaskUpdate (serverTime env (tick w)) u t else t)
                (tasks (db w)))
           = Some (applyTaskUpdate (serverTime env (tick w)) u t0)"
    using assms(2) by (subst find_map_update) (auto simp: tk_id_applyTaskUpdate)
  show ?thesis
    using assms(1,3) ex f by (simp add: updateTaskDoc_def io_defs)
qed

lemma updateTaskDoc_refused:
  assumes "u_dynamicTableData u = Some d" "\<not> firestoreMap d"
  shows "updateTaskDoc env taskId u w = (Inl InvalidArgument, w)"
  using assms by (simp add: updateTaskDoc_def io_throw_def)

text \<open>
  Without transport faults and with the task in the database, \<open>updateTaskDynamicData\<close>
  comes to its write with the value set the codec made; the write goes through when the
  database can hold every value of it, and is refused, with the database as it was,
  otherwise.
\<close>

lemma updateTaskDynamicData_cases:
  assumes nofault: "\<forall>k. \<not> fault env k"
      and tsk: "find (\<lambda>t. tk_id t = taskId) (tasks (db w)) = Some t0"
  shows "\<exists>pd'.
           fst ` set pd' = fst ` set newData \<union> set (docFieldNames (taskTableFields (db w) t0))
         \<and> (\<forall>n. getProp pd' n =
               (if n \<in> set (docFieldNames (taskTableFields (db w) t0))
                then taskFieldValue env (tk_workflowInstanceId t0) taskId newData currentData n
                else getProp newData n))
         \<and> (if firestoreMap pd'
            then (\<exists>t' w' k.
                    updateTaskDynamicData env taskId newData currentData w = (Inr t', w')
                  \<and> find (\<lambda>t. tk_id t = taskId) (tasks (db w')) = Some t'
                  \<and> t' = applyTaskUpdate (serverTime env k)
                           \<lparr>u_dynamicTableData = Some pd',
                            u_status = (if tk_status t0 = PENDING then Some IN_PROGRESS else None),
                            u_startDatetime =
                              (if tk_status t0 = PENDING \<and> tk_startDatetime t0 = None
                               then Some ServerTimestamp else None),
                            u_finishDatetime = None,
                            u_notes = None,
                            u_updatedAt = Some ServerTimestamp\<rparr> t0)
            else (\<exists>w'. updateTaskDynamicData env taskId newData currentData w
                          = (Inl InvalidArgument, w')
                      \<and> db w' = db w))"
proof -
  let ?w1 = "w\<lparr>tick := Suc (tick w)\<rparr>"
  obtain w2 where ff: "fieldsForTask env t0 ?w1 = (Inr (taskTableFields (db w) t0), w2)"
      "db w2 = db w"
    using fieldsForTask_ok[OF nofault, of t0 ?w1] by auto
  obtain pd' w3 where l: "taskFieldLoop env (tk_workflowInstanceId t0) taskId newData currentData
               (taskTableFields (db w) t0) newData w2 = (Inr pd', w3)" "db w3 = db w2"
     "fst ` set pd' = fst ` set newData \<union> set (docFieldNames (taskTableFields (db w) t0))"
     "\<forall>n. getProp pd' n =
               (if n \<in> set (docFieldNames (taskTableFields (db w) t0))
                then taskFieldValue env (tk_workflowInstanceId t0) taskId newData currentData n
                else getProp newData n)"
    using taskFieldLoop_ok[OF nofault] by blast
  let ?u = "\<lparr>u_dynamicTableData = Some pd',
                   u_status = (if tk_status t0 = PENDING then Some IN_PROGRESS else None),
                   u_startDatetime =
                     (if tk_status t0 = PENDING \<and> tk_startDatetime t0 = None
                      then Some ServerTimestamp else None),
                   u_finishDatetime = None,
                   u_notes = None,
                   u_updatedAt = Some ServerTimestamp\<rparr>"
  have t3: "find (\<lambda>t. tk_id t = taskId) (tasks (db w3)) = Some t0"
    using tsk ff(2) l(2) by simp
  have branch: "if firestoreMap pd'
            then (\<exists>t' w' k.
                    updateTaskDynamicData env taskId newData currentData w = (Inr t', w')
                  \<and> find (\<lambda>t. tk_id t = taskId) (tasks (db w')) = Some t'
                  \<and> t' = applyTaskUpdate (serverTime env k) ?u t0)
            else (\<exists>w'. updateTaskDynamicData env taskId newData currentData w
                          = (Inl InvalidArgument, w')
                      \<and> db w' = db w)"
  proof (cases "firestoreMap pd'")
    case True
    obtain w4 where up: "updateTaskDoc env taskId ?u w3 = (Inr (), w4)"
        "find (\<lambda>t. tk_id t = taskId) (tasks (db w4))
           = Some (applyTaskUpdate (serverTime env (tick w3)) ?u t0)"
      using updateTaskDoc_ok[OF _ t3, of env ?u] nofault True by auto
    have "updateTaskDynamicData env taskId newData currentData w
            = (Inr (applyTaskUpdate (serverTime env (tick w3)) ?u t0), w4\<lparr>tick := Suc (tick w4)\<rparr>)"
      using nofault tsk ff(1) l(1) up
      by (simp add: updateTaskDynamicData_def getTaskDoc_ok io_bind_def io_return_def)
    then have "\<exists>t' w' k.
                    updateTaskDynamicData env taskId newData currentData w = (Inr t', w')
                  \<and> find (\<lambda>t. tk_id t = taskId) (tasks (db w')) = Some t'
                  \<and> t' = applyTaskUpdate (serverTime env k) ?u t0"
      using up(2)
      by (intro exI[of _ "applyTaskUpdate (serverTime env (tick w3)) ?u t0"]
           exI[of _ "w4\<lparr>tick := Suc (tick w4)\<rparr>"] exI[of _ "tick w3"]) simp
    then show ?thesis using True by simp
  next
    case False
    have up: "updateTaskDoc env taskId ?u w3
                = (Inl InvalidArgument, w3)"
      using False by (simp add: updateTaskDoc_refused)
    have "updateTaskDynamicData env taskId newData currentData w
            = (Inl InvalidArgument, w3)"
      using nofault tsk ff(1) l(1) up
      by (simp add: updateTaskDynamicData_def getTaskDoc_ok io_bind_def io_return_def)
    then show ?thesis using False l(2) ff(2) by simp
  qed
  show ?thesis
    using l(3,4) branch by (intro exI[of _ pd']) simp
qed

lemma updateTaskDynamicData_ok:
  assumes nofault: "\<forall>k. \<not> fault env k"
      and tsk: "find (\<lambda>t. tk_id t = taskId) (tasks (db w)) = Some t0"
      and vs: "valuesStorable (docFieldNames (taskTableFields (db w) t0)) newData"
      and cur: "firestoreMap currentData"
  shows "\<exists>t' w' k pd'.
           updateTaskDynamicData env taskId newData currentData w = (Inr t', w')
         \<and> find (\<lambda>t. tk_id t = taskId) (tasks (db w')) = Some t'
         \<and> t' = applyTaskUpdate (serverTime env k)
                  \<lparr>u_dynamicTableData = Some pd',
                   u_status = (if tk_status t0 = PENDING then Some IN_PROGRESS else None),
                   u_startDatetime =
                     (if tk_status t0 = PENDING \<and> tk_startDatetime t0 = None
                      then Some ServerTimestamp else None),
                   u_finishDatetime = None,
                   u_notes = None,
                   u_updatedAt = Some ServerTimestamp\<rparr> t0
         \<and> (\<forall>n. getProp pd' n =
               (if n \<in> set (docFieldNames (taskTableFields (db w) t0))
                then taskFieldValue env (tk_workflowInstanceId t0) taskId newData currentData n
                else getProp newData n))"
proof -
  obtain pd' where c:
    "fst ` set pd' = fst ` set newData \<union> set (docFieldNames (taskTableFields (db w) t0))"
    "\<forall>n. getProp pd' n =
               (if n \<in> set (docFieldNames (taskTableFields (db w) t0))
                then taskFieldValue env (tk_workflowInstanceId t0) taskId newData currentData n
                else getProp newData n)"
    "if firestoreMap pd'
            then (\<exists>t' w' k.
                    updateTaskDynamicData env taskId newData currentData w = (Inr t', w')
                  \<and> find (\<lambda>t. tk_id t = taskId) (tasks (db w')) = Some t'
                  \<and> t' = applyTaskUpdate (serverTime env k)
                           \<lparr>u_dynamicTableData = Some pd',
                            u_status = (if tk_status t0 = PENDING then Some IN_PROGRESS else None),
                            u_startDatetime =
                              (if tk_status t0 = PENDING \<and> tk_startDatetime t0 = None
                               then Some ServerTimestamp else None),
                            u_finishDatetime = None,
                            u_notes = None,
                            u_updatedAt = Some ServerTimestamp\<rparr> t0)
            else (\<exists>w'. updateTaskDynamicData env taskId newData currentData w
                          = (Inl InvalidArgument, w')
                      \<and> db w' = db w)"
    using updateTaskDynamicData_cases[OF nofault tsk, of newData currentData] by blast
  have ok: "firestoreMap pd'"
    using processed_storable[OF vs c(1) c(2)] taskFieldValue_storable[OF cur] by blast
  obtain t' w' k where r:
    "updateTaskDynamicData env taskId newData currentData w = (Inr t', w')"
    "find (\<lambda>t. tk_id t = taskId) (tasks (db w')) = Some t'"
    "t' = applyTaskUpdate (serverTime env k)
                           \<lparr>u_dynamicTableData = Some pd',
                            u_status = (if tk_status t0 = PENDING then Some IN_PROGRESS else None),
                            u_startDatetime =
                              (if tk_status t0 = PENDING \<and> tk_startDatetime t0 = None
                               then Some ServerTimestamp else None),
                            u_finishDatetime = None,
                            u_notes = None,
                            u_updatedAt = Some ServerTimestamp\<rparr> t0"
    using c(3) ok by auto
  show ?thesis
    using r c(2) by blast
qed

lemma completeTask_ok:
  assumes nofault: "\<forall>k. \<not> fault env k"
      and tsk: "find (\<lambda>t. tk_id t = taskId) (tasks (db w)) = Some t0"
  shows "\<exists>w'. completeTask env taskId notes w
            = (Inr (applyTaskUpdate (serverTime env (Suc (tick w)))
                  \<lparr>u_dynamicTableData = None,
                   u_status = Some TASK_COMPLETED,
                   u_startDatetime =
                     (if tk_startDatetime t0 = None \<and> tk_status t0 = PENDING
                      then Some ServerTimestamp else None),
                   u_finishDatetime = Some ServerTimestamp,
                   u_notes = (if optTruthy notes then notes else None),
                   u_updatedAt = Some ServerTimestamp\<rparr> t0), w')
         \<and> find (\<lambda>t. tk_id t = taskId) (tasks (db w'))
            = Some (applyTaskUpdate (serverTime env (Suc (tick w)))
                  \<lparr>u_dynamicTableData = None,
                   u_status = Some TASK_COMPLETED,
                   u_startDatetime =
                     (if tk_startDatetime t0 = None \<and> tk_status t0 = PENDING
                      then Some ServerTimestamp else None),
                   u_finishDatetime = Some ServerTimestamp,
                   u_notes = (if optTruthy notes then notes else None),
                   u_updatedAt = Some ServerTimestamp\<rparr> t0)
         \<and> tick w' = Suc (Suc (Suc (tick w)))"
proof -
  let ?w1 = "w\<lparr>tick := Suc (tick w)\<rparr>"
  let ?u = "\<lparr>u_dynamicTableData = None,
                   u_status = Some TASK_COMPLETED,
                   u_startDatetime =
                     (if tk_startDatetime t0 = None \<and> tk_status t0 = PENDING
                      then Some ServerTimestamp else None),
                   u_finishDatetime = Some ServerTimestamp,
                   u_notes = (if optTruthy notes then notes else None),
                   u_updatedAt = Some ServerTimestamp\<rparr>"
  have t1: "find (\<lambda>t. tk_id t = taskId) (tasks (db ?w1)) = Some t0"
    using tsk by simp
  obtain w2 where up: "updateTaskDoc env taskId ?u ?w1 = (Inr (), w2)"
      "find (\<lambda>t. tk_id t = taskId) (tasks (db w2))
         = Some (applyTaskUpdate (serverTime env (tick ?w1)) ?u t0)"
      "tick w2 = Suc (tick ?w1)"
    using updateTaskDoc_ok[OF _ t1, of env ?u] nofault by auto
  have "completeTask env taskId notes w
          = (Inr (applyTaskUpdate (serverTime env (Suc (tick w))) ?u t0),
             w2\<lparr>tick := Suc (tick w2)\<rparr>)"
    using nofault tsk up
    by (simp add: completeTask_def getTaskDoc_ok io_bind_def io_return_def)
  then show ?thesis using up(2,3) by simp
qed

section \<open>One step of a codec on a stored path that is not blank\<close>

lemma entry_upload_step:
  assumes nofault: "\<forall>k. \<not> fault env k"
      and doc: "f_type field = DOCUMENT_UPLOAD"
      and new: "getProp newData (f_name field) = FileV fl"
      and old: "getProp currentData (f_name field) = Str oldPath"
      and notblank: "\<not> trimIsEmpty oldPath"
  shows "\<exists>w1 w2.
           deleteFileFromStorage env oldPath w = (Inr (), w1)
         \<and> objects w1 = filter (\<lambda>ob. fst ob \<noteq> fullPath env oldPath) (objects w)
         \<and> uploadFileToStorage env fl
              (joinSlash [''dynamicTableEntries'', tableId, entryId, f_name field, fileName fl]) w1
             = (Inr (fullPath env
                  (joinSlash [''dynamicTableEntries'', tableId, entryId, f_name field, fileName fl])),
                w2)
         \<and> objects w2
             = (fullPath env
                  (joinSlash [''dynamicTableEntries'', tableId, entryId, f_name field, fileName fl]),
                fl)
               # filter (\<lambda>ob. fst ob \<noteq> fullPath env
                    (joinSlash [''dynamicTableEntries'', tableId, entryId, f_name field,
                                fileName fl])) (objects w1)
         \<and> entryFieldStep env tableId entryId newData currentData field processed w
             = (Inr (setProp processed (f_name field)
                  (Str (fullPath env
                     (joinSlash [''dynamicTableEntries'', tableId, entryId, f_name field,
                                 fileName fl])))), w2)"
proof -
  have ne: "oldPath \<noteq> []" using notblank by (rule not_blank_nonempty)
  obtain w1 where d: "deleteFileFromStorage env oldPath w = (Inr (), w1)"
      "objects w1 = filter (\<lambda>ob. fst ob \<noteq> fullPath env oldPath) (objects w)"
    using deleteFileFromStorage_ok[of env w oldPath] nofault notblank ne by auto
  let ?p = "joinSlash [''dynamicTableEntries'', tableId, entryId, f_name field, fileName fl]"
  obtain w2 where u: "uploadFileToStorage env fl ?p w1 = (Inr (fullPath env ?p), w2)"
      "objects w2 = (fullPath env ?p, fl) # filter (\<lambda>ob. fst ob \<noteq> fullPath env ?p) (objects w1)"
    using uploadFileToStorage_ok[of env w1 fl ?p] nofault by auto
  have "entryFieldStep env tableId entryId newData currentData field processed w
          = (Inr (setProp processed (f_name field) (Str (fullPath env ?p))), w2)"
    using doc new old ne d(1) u(1)
    by (simp add: entryFieldStep_def io_bind_def io_return_def)
  with d u show ?thesis by blast
qed

lemma task_upload_step:
  assumes nofault: "\<forall>k. \<not> fault env k"
      and doc: "f_type field = DOCUMENT_UPLOAD"
      and new: "getProp newData (f_name field) = FileV fl"
      and old: "getProp currentData (f_name field) = Str oldPath"
      and notblank: "\<not> trimIsEmpty oldPath"
  shows "\<exists>w1 w2.
           deleteFileFromStorage env oldPath w = (Inr (), w1)
         \<and> objects w1 = filter (\<lambda>ob. fst ob \<noteq> fullPath env oldPath) (objects w)
         \<and> uploadFileToStorage env fl
              (joinSlash [''taskAttachments'', wfid, taskId, f_name field, fileName fl]) w1
             = (Inr (fullPath env
                  (joinSlash [''taskAttachments'', wfid, taskId, f_name field, fileName fl])),
                w2)
         \<and> objects w2
             = (fullPath env
                  (joinSlash [''taskAttachments'', wfid, taskId, f_name field, fileName fl]), fl)
               # filter (\<lambda>ob. fst ob \<noteq> fullPath env
                    (joinSlash [''taskAttachments'', wfid, taskId, f_name field, fileName fl]))
                  (objects w1)
         \<and> taskFieldStep env wfid taskId newData currentData field processed w
             = (Inr (setProp processed (f_name field)
                  (Str (fullPath env
                     (joinSlash [''taskAttachments'', wfid, taskId, f_name field,
                                 fileName fl])))), w2)"
proof -
  have ne: "oldPath \<noteq> []" using notblank by (rule not_blank_nonempty)
  obtain w1 where d: "deleteFileFromStorage env oldPath w = (Inr (), w1)"
      "objects w1 = filter (\<lambda>ob. fst ob \<noteq> fullPath env oldPath) (objects w)"
    using deleteFileFromStorage_ok[of env w oldPath] nofault notblank ne by auto
  let ?p = "joinSlash [''taskAttachments'', wfid, taskId, f_name field, fileName fl]"
  obtain w2 where u: "uploadFileToStorage env fl ?p w1 = (Inr (fullPath env ?p), w2)"
      "objects w2 = (fullPath env ?p, fl) # filter (\<lambda>ob. fst ob \<noteq> fullPath env ?p) (objects w1)"
    using uploadFileToStorage_ok[of env w1 fl ?p] nofault by auto
  have "taskFieldStep env wfid taskId newData currentData field processed w
          = (Inr (setProp processed (f_name field) (Str (fullPath env ?p))), w2)"
    using doc new old ne d(1) u(1)
    by (simp add: taskFieldStep_def io_bind_def io_return_def)
  with d u show ?thesis by blast
qed

lemma entry_clear_step:
  assumes nofault: "\<forall>k. \<not> fault env k"
      and doc: "f_type field = DOCUMENT_UPLOAD"
      and new: "getProp newData (f_name field) = Null \<or> getProp newData (f_name field) = Undefined
                \<or> getProp newData (f_name field) = Str []"
      and old: "getProp currentData (f_name field) = Str oldPath"
      and notblank: "\<not> trimIsEmpty oldPath"
  shows "\<exists>w1. deleteFileFromStorage env oldPath w = (Inr (), w1)
         \<and> objects w1 = filter (\<lambda>ob. fst ob \<noteq> fullPath env oldPath) (objects w)
         \<and> entryFieldStep env tableId entryId newData currentData field processed w
             = (Inr (setProp processed (f_name field) Null), w1)"
proof -
  have ne: "oldPath \<noteq> []" using notblank by (rule not_blank_nonempty)
  obtain w1 where d: "deleteFileFromStorage env oldPath w = (Inr (), w1)"
      "objects w1 = filter (\<lambda>ob. fst ob \<noteq> fullPath env oldPath) (objects w)"
    using deleteFileFromStorage_ok[of env w oldPath] nofault notblank ne by auto
  have "entryFieldStep env tableId entryId newData currentData field processed w
          = (Inr (setProp processed (f_name field) Null), w1)"
    using doc new old ne d(1)
    by (auto simp add: entryFieldStep_def io_bind_def io_return_def)
  with d show ?thesis by blast
qed

lemma task_clear_step:
  assumes nofault: "\<forall>k. \<not> fault env k"
      and doc: "f_type field = DOCUMENT_UPLOAD"
      and new: "getProp newData (f_name field) = Null \<or> getProp newData (f_name field) = Undefined
                \<or> getProp newData (f_name field) = Str []"
      and old: "getProp currentData (f_name field) = Str oldPath"
      and notblank: "\<not> trimIsEmpty oldPath"
  shows "\<exists>w1. deleteFileFromStorage env oldPath w = (Inr (), w1)
         \<and> objects w1 = filter (\<lambda>ob. fst ob \<noteq> fullPath env oldPath) (objects w)
         \<and> taskFieldStep env wfid taskId newData currentData field processed w
             = (Inr (setProp processed (f_name field) Null), w1)"
proof -
  have ne: "oldPath \<noteq> []" using notblank by (rule not_blank_nonempty)
  obtain w1 where d: "deleteFileFromStorage env oldPath w = (Inr (), w1)"
      "objects w1 = filter (\<lambda>ob. fst ob \<noteq> fullPath env oldPath) (objects w)"
    using deleteFileFromStorage_ok[of env w oldPath] nofault notblank ne by auto
  have "taskFieldStep env wfid taskId newData currentData field processed w
          = (Inr (setProp processed (f_name field) Null), w1)"
    using doc new old ne d(1)
    by (auto simp add: taskFieldStep_def io_bind_def io_return_def)
  with d show ?thesis by blast
qed

section \<open>The value a whole update stores for a document-upload field\<close>

lemma entry_whole_value:
  assumes nofault: "\<forall>k. \<not> fault env k"
      and tbl: "find (\<lambda>t. t_id t = tableId) (dynamicTables (db w)) = Some td"
      and ent: "find (\<lambda>te. fst te = tableId \<and> e_id (snd te) = entryId) (tableEntries (db w))
                  = Some te0"
      and fld: "field \<in> set (dynamicFields (db w))" "f_id field \<in> set (t_fieldIds td)"
               "f_type field = DOCUMENT_UPLOAD"
      and vs: "valuesStorable (docFieldNames (entryTableFields (db w) tableId)) newData"
      and cur: "firestoreMap currentData"
  shows "\<exists>e w'. updateDynamicTableEntry env tableId entryId newData currentData w = (Inr e, w')
          \<and> find (\<lambda>te. fst te = tableId \<and> e_id (snd te) = entryId) (tableEntries (db w'))
              = Some (tableId, e)
          \<and> getProp (e_data e) (f_name field)
              = entryFieldValue env tableId entryId newData currentData (f_name field)"
proof -
  obtain e w' where r:
    "updateDynamicTableEntry env tableId entryId newData currentData w = (Inr e, w')"
    "find (\<lambda>te. fst te = tableId \<and> e_id (snd te) = entryId) (tableEntries (db w'))
              = Some (tableId, e)"
    "\<forall>n. getProp (e_data e) n =
                (if n \<in> set (docFieldNames (entryTableFields (db w) tableId))
                 then entryFieldValue env tableId entryId newData currentData n
                 else getProp newData n)"
    using updateDynamicTableEntry_ok[OF nofault tbl ent vs cur] by blast
  have mem: "f_name field \<in> set (docFieldNames (entryTableFields (db w) tableId))"
    using fld tbl by (auto simp: mem_docFieldNames entryTableFields_def)
  have "getProp (e_data e) (f_name field)
              = entryFieldValue env tableId entryId newData currentData (f_name field)"
    using r(3) mem by simp
  with r show ?thesis by blast
qed

lemma task_whole_value:
  assumes nofault: "\<forall>k. \<not> fault env k"
      and tsk: "find (\<lambda>t. tk_id t = taskId) (tasks (db w)) = Some t0"
      and tid: "tk_dynamicTableId t0 = Some tableId" "tableId \<noteq> []"
      and tbl: "find (\<lambda>t. t_id t = tableId) (dynamicTables (db w)) = Some td"
               "\<not> t_isArchived td"
      and fld: "field \<in> set (dynamicFields (db w))" "f_id field \<in> set (t_fieldIds td)"
               "\<not> f_isArchived field" "f_type field = DOCUMENT_UPLOAD"
      and vs: "valuesStorable (docFieldNames (taskTableFields (db w) t0)) newData"
      and cur: "firestoreMap currentData"
  shows "\<exists>t' w'. updateTaskDynamicData env taskId newData currentData w = (Inr t', w')
          \<and> find (\<lambda>t. tk_id t = taskId) (tasks (db w')) = Some t'
          \<and> getProp (tk_dynamicTableData t') (f_name field)
              = taskFieldValue env (tk_workflowInstanceId t0) taskId newData currentData
                  (f_name field)"
proof -
  have mem0: "field \<in> set (taskTableFields (db w) t0)"
    using tid tbl fld by (simp add: taskTableFields_def)
  have mem: "f_name field \<in> set (docFieldNames (taskTableFields (db w) t0))"
    using mem0 fld(4) by (auto simp: mem_docFieldNames)
  obtain t' w' k pd' where u:
    "updateTaskDynamicData env taskId newData currentData w = (Inr t', w')"
    "find (\<lambda>t. tk_id t = taskId) (tasks (db w')) = Some t'"
    "t' = applyTaskUpdate (serverTime env k)
                  \<lparr>u_dynamicTableData = Some pd',
                   u_status = (if tk_status t0 = PENDING then Some IN_PROGRESS else None),
                   u_startDatetime =
                     (if tk_status t0 = PENDING \<and> tk_startDatetime t0 = None
                      then Some ServerTimestamp else None),
                   u_finishDatetime = None,
                   u_notes = None,
                   u_updatedAt = Some ServerTimestamp\<rparr> t0"
    "\<forall>n. getProp pd' n =
               (if n \<in> set (docFieldNames (taskTableFields (db w) t0))
                then taskFieldValue env (tk_workflowInstanceId t0) taskId newData currentData n
                else getProp newData n)"
    using updateTaskDynamicData_ok[OF nofault tsk vs cur] by blast
  have "tk_dynamicTableData t' = pd'"
    using u(3) by (simp add: applyTaskUpdate_def)
  then have "getProp (tk_dynamicTableData t') (f_name field)
              = taskFieldValue env (tk_workflowInstanceId t0) taskId newData currentData
                  (f_name field)"
    using u(4) mem by simp
  with u(1,2) show ?thesis by blast
qed

section \<open>Building and committing the batch\<close>

lemma getEntryDoc_db:
  "db (snd (getEntryDoc env t r w)) = db w \<and> objects (snd (getEntryDoc env t r w)) = objects w"
  by (simp add: getEntryDoc_def io_defs)

lemma initialTaskDataFor_db:
  "db (snd (initialTaskDataFor env p tt w)) = db w
   \<and> objects (snd (initialTaskDataFor env p tt w)) = objects w"
  by (auto simp: initialTaskDataFor_def getEntryDoc_def io_defs split: option.splits)

lemma materializeStep_db:
  "db (snd (materializeStep env p iid allTT i batch w)) = db w
   \<and> objects (snd (materializeStep env p iid allTT i batch w)) = objects w"
proof (cases "find (\<lambda>tt. tt_id tt = i \<and> \<not> tt_isArchived tt) allTT")
  case None
  then show ?thesis by (simp add: materializeStep_def io_return_def)
next
  case (Some tt)
  obtain r w1 where i: "initialTaskDataFor env p tt w = (r, w1)"
    by (cases "initialTaskDataFor env p tt w")
  have "db w1 = db w \<and> objects w1 = objects w"
    using initialTaskDataFor_db[of env p tt w] i by simp
  then show ?thesis
    using Some i
    by (cases r) (simp_all add: materializeStep_def io_bind_def newDocId_def split: sum.splits)
qed

lemma materializeLoop_db:
  "db (snd (materializeLoop env p iid allTT ids batch w)) = db w
   \<and> objects (snd (materializeLoop env p iid allTT ids batch w)) = objects w"
proof (induction ids arbitrary: batch w)
  case Nil
  then show ?case by (simp add: io_return_def)
next
  case (Cons i rest)
  obtain r w1 where s: "materializeStep env p iid allTT i batch w = (r, w1)"
    by (cases "materializeStep env p iid allTT i batch w")
  have w1: "db w1 = db w \<and> objects w1 = objects w"
    using materializeStep_db[of env p iid allTT i batch w] s by simp
  show ?case
  proof (cases r)
    case (Inl e)
    then show ?thesis using s w1 by (simp add: io_bind_def)
  next
    case (Inr b)
    then show ?thesis using s w1 Cons.IH[of b w1] by (simp add: io_bind_def)
  qed
qed

lemma buildBatch_db:
  "db (snd (buildBatch env p iid w)) = db w \<and> objects (snd (buildBatch env p iid w)) = objects w"
proof -
  let ?w1 = "w\<lparr>tick := Suc (tick w)\<rparr>"
  let ?w2 = "w\<lparr>tick := Suc (Suc (tick w))\<rparr>"
  have l: "\<And>allTT ids b. db (snd (materializeLoop env p iid allTT ids b ?w2)) = db w
            \<and> objects (snd (materializeLoop env p iid allTT ids b ?w2)) = objects w"
    using materializeLoop_db[of env p iid _ _ _ ?w2] by simp
  show ?thesis
    using l
    by (auto simp: buildBatch_def getWorkflowTemplateById_def getTaskTemplates_def io_defs
             split: option.splits)
qed










lemma tasks_applyWrite_SetInstance: "tasks (applyWrite t st (SetInstance i)) = tasks st"
  by simp

lemma find_app:
  "find P (xs @ ys) = (case find P xs of None \<Rightarrow> find P ys | Some x \<Rightarrow> Some x)"
  by (induction xs) auto

lemma find_setInstanceDoc:
  "find (\<lambda>x. wi_id x = wi_id d) (setInstanceDoc d ds) = Some d"
proof (cases "list_ex (\<lambda>x. wi_id x = wi_id d) ds")
  case True
  then obtain x where x: "find (\<lambda>x. wi_id x = wi_id d) ds = Some x"
    by (auto simp: list_ex_find)
  have "find (\<lambda>x. wi_id x = wi_id d) (map (\<lambda>x. if wi_id x = wi_id d then d else x) ds)
          = map_option (\<lambda>x. d) (find (\<lambda>x. wi_id x = wi_id d) ds)"
    by (rule find_map_update) simp
  then show ?thesis using True x by (simp add: setInstanceDoc_def)
next
  case False
  then have "find (\<lambda>x. wi_id x = wi_id d) ds = None" by (simp add: list_ex_find)
  then show ?thesis using False by (simp add: setInstanceDoc_def find_app)
qed


section \<open>Updating the status of an instance\<close>



lemma completeTask_instances:
  "workflowInstances (db (snd (completeTask env taskId n w))) = workflowInstances (db w)"
  by (auto simp: completeTask_def getTaskDoc_def updateTaskDoc_def io_defs
           split: option.splits)
section \<open>Creating a workflow instance\<close>




text \<open>
  A due date past the year 9999 cannot be built: with an offset of 3,000,000 days on the
  first task template the call throws while it builds the batch, and nothing is written.
\<close>

lemma due_date_out_of_range_example:
  "fst (addWorkflowInstance demoEnv demoPayload
          (demoWorld\<lparr>db := (db demoWorld)\<lparr>taskTemplates :=
             [ttA\<lparr>tt_dueDateOffsetDays := Some 3000000\<rparr>, ttB, ttC]\<rparr>\<rparr>))
     = Inl InvalidArgument
   \<and> tasks (db (snd (addWorkflowInstance demoEnv demoPayload
          (demoWorld\<lparr>db := (db demoWorld)\<lparr>taskTemplates :=
             [ttA\<lparr>tt_dueDateOffsetDays := Some 3000000\<rparr>, ttB, ttC]\<rparr>\<rparr>))))
     = [doneTask, demoTask]
   \<and> workflowInstances (db (snd (addWorkflowInstance demoEnv demoPayload
          (demoWorld\<lparr>db := (db demoWorld)\<lparr>taskTemplates :=
             [ttA\<lparr>tt_dueDateOffsetDays := Some 3000000\<rparr>, ttB, ttC]\<rparr>\<rparr>))))
     = [demoInstance]"
  by code_simp

text \<open>
  Claim C2.  \<open>addWorkflowInstance\<close> only collects writes in the batch until
  \<open>batch.commit()\<close>.  If any step before the commit fails (reading the template, listing
  the task templates, reading an associated row, building the due date of a task or putting
  its document into the batch), the call fails with that error and the database and the
  storage are as before: neither the instance nor any task is there.
  Whatever happens, the database afterwards is either unchanged or the old one with every
  write of the complete batch applied, at one server time.
\<close>

theorem instance_creation_is_atomic:
  "(\<forall>e. fst (buildBatch env p (autoId env (idCount w)) (w\<lparr>idCount := Suc (idCount w)\<rparr>)) = Inl e
        \<longrightarrow> fst (addWorkflowInstance env p w) = Inl e
          \<and> db (snd (addWorkflowInstance env p w)) = db w
          \<and> objects (snd (addWorkflowInstance env p w)) = objects w)
   \<and> (db (snd (addWorkflowInstance env p w)) = db w
      \<or> (\<exists>batch w1.
            buildBatch env p (autoId env (idCount w)) (w\<lparr>idCount := Suc (idCount w)\<rparr>)
              = (Inr batch, w1)
          \<and> \<not> fault env (tick w1)
          \<and> db (snd (addWorkflowInstance env p w))
              = foldl (applyWrite (serverTime env (tick w1))) (db w) batch))"
proof -
  let ?iid = "autoId env (idCount w)"
  let ?w0 = "w\<lparr>idCount := Suc (idCount w)\<rparr>"
  obtain r w1 where b: "buildBatch env p ?iid ?w0 = (r, w1)"
    by (cases "buildBatch env p ?iid ?w0")
  have keep: "db w1 = db w" "objects w1 = objects w"
    using buildBatch_db[of env p ?iid ?w0] b by simp_all
  show ?thesis
  proof (cases r)
    case (Inl e)
    then have "addWorkflowInstance env p w = (Inl e, w1)"
      using b by (simp add: addWorkflowInstance_def newDocId_def io_bind_def)
    then show ?thesis using b Inl keep by simp
  next
    case (Inr batch)
    show ?thesis
    proof (cases "fault env (tick w1)")
      case True
      then have "addWorkflowInstance env p w = (Inl SdkFailure, w1\<lparr>tick := Suc (tick w1)\<rparr>)"
        using b Inr
        by (simp add: addWorkflowInstance_def newDocId_def batchCommit_def io_defs)
      then show ?thesis using b Inr keep by simp
    next
      case False
      then have "db (snd (addWorkflowInstance env p w))
                   = foldl (applyWrite (serverTime env (tick w1))) (db w) batch"
        using b Inr keep
        by (auto simp: addWorkflowInstance_def newDocId_def batchCommit_def
                       getWorkflowInstanceDoc_def io_defs split: option.splits)
      then show ?thesis using b Inr False by simp
    qed
  qed
qed

text \<open>
  On the small system, with the third SDK call (the read of the associated row, during the
  materialization of the first task) failing: the call fails and nothing is written.
\<close>

theorem instance_creation_is_atomic_witness:
  "fst (buildBatch faultyEnv demoPayload (autoId faultyEnv (idCount demoWorld))
          (demoWorld\<lparr>idCount := Suc (idCount demoWorld)\<rparr>)) = Inl SdkFailure
   \<and> fst (addWorkflowInstance faultyEnv demoPayload demoWorld) = Inl SdkFailure
   \<and> db (snd (addWorkflowInstance faultyEnv demoPayload demoWorld)) = db demoWorld
   \<and> workflowInstances (db (snd (addWorkflowInstance faultyEnv demoPayload demoWorld)))
       = [demoInstance]
   \<and> tasks (db (snd (addWorkflowInstance faultyEnv demoPayload demoWorld))) = [doneTask, demoTask]"
proof -
  have h: "fst (buildBatch faultyEnv demoPayload (autoId faultyEnv (idCount demoWorld))
          (demoWorld\<lparr>idCount := Suc (idCount demoWorld)\<rparr>)) = Inl SdkFailure"
    by code_simp
  have d: "workflowInstances (db demoWorld) = [demoInstance]" "tasks (db demoWorld) = [doneTask, demoTask]"
    by (simp_all add: demoWorld_def)
  show ?thesis
    using instance_creation_is_atomic[of faultyEnv demoPayload demoWorld, THEN conjunct1,
            rule_format, OF h] h d
    by simp
qed

text \<open>
  Claim C10.  When \<open>workflowTemplateId\<close> is not the id of a workflow template,
  \<open>addWorkflowInstance\<close> never fails with a not-found error, whatever the transport does;
  and without transport faults it commits and returns a new instance in status Active,
  and the tasks in the database are the ones that were there: no task is created.
\<close>

theorem unknown_template_creates_instance_without_tasks:
  assumes notfound: "find (\<lambda>t. wt_id t = p_workflowTemplateId p) (workflowTemplates (db w)) = None"
  shows "(\<forall>msg. fst (addWorkflowInstance env p w) \<noteq> Inl (AppError msg))
       \<and> fst (addWorkflowInstance env p w) \<noteq> Inl FirestoreNotFound
       \<and> fst (addWorkflowInstance env p w) \<noteq> Inl StorageObjectNotFound
       \<and> ((\<forall>k. \<not> fault env k) \<longrightarrow>
            (\<exists>inst w'.
               addWorkflowInstance env p w = (Inr inst, w')
             \<and> wi_id inst = autoId env (idCount w)
             \<and> wi_workflowTemplateId inst = p_workflowTemplateId p
             \<and> wi_status inst = ACTIVE
             \<and> find (\<lambda>x. wi_id x = wi_id inst) (workflowInstances (db w')) = Some inst
             \<and> tasks (db w') = tasks (db w)))"
proof -
  let ?iid = "autoId env (idCount w)"
  let ?i0 = "newInstanceDoc env p ?iid"
  let ?w0 = "w\<lparr>idCount := Suc (idCount w)\<rparr>"
  let ?T = "serverTime env (Suc (tick w))"
  let ?inst = "?i0\<lparr>wi_startDatetime := At ?T, wi_createdAt := At ?T, wi_updatedAt := At ?T\<rparr>"
  have fnd: "find (\<lambda>x. wi_id x = ?iid) (setInstanceDoc ?inst (workflowInstances (db w)))
               = Some ?inst"
    using find_setInstanceDoc[of ?inst "workflowInstances (db w)"]
    by (simp add: newInstanceDoc_def)
  have res: "?i0\<lparr>wi_startDatetime := resolveTime ?T (wi_startDatetime ?i0),
                 wi_createdAt := resolveTime ?T (wi_createdAt ?i0),
                 wi_updatedAt := resolveTime ?T (wi_updatedAt ?i0)\<rparr> = ?inst"
    by (simp add: newInstanceDoc_def)
  have cases3: "fst (addWorkflowInstance env p w) = Inl SdkFailure
              \<or> addWorkflowInstance env p w
                  = (Inr ?inst,
                     w\<lparr>idCount := Suc (idCount w), tick := Suc (Suc (Suc (tick w))),
                       db := (db w)\<lparr>workflowInstances :=
                                setInstanceDoc ?inst (workflowInstances (db w))\<rparr>\<rparr>)"
    using notfound fnd res
    by (simp add: addWorkflowInstance_def buildBatch_def newDocId_def batchCommit_def
                  getWorkflowTemplateById_def getWorkflowInstanceDoc_def io_defs)
  have nf: "(\<forall>k. \<not> fault env k) \<Longrightarrow> fst (addWorkflowInstance env p w) \<noteq> Inl SdkFailure"
    using notfound fnd res
    by (simp add: addWorkflowInstance_def buildBatch_def newDocId_def batchCommit_def
                  getWorkflowTemplateById_def getWorkflowInstanceDoc_def io_defs)
  show ?thesis
  proof (intro conjI allI impI)
    fix msg show "fst (addWorkflowInstance env p w) \<noteq> Inl (AppError msg)"
      using cases3 by auto
  next
    show "fst (addWorkflowInstance env p w) \<noteq> Inl FirestoreNotFound"
      using cases3 by auto
  next
    show "fst (addWorkflowInstance env p w) \<noteq> Inl StorageObjectNotFound"
      using cases3 by auto
  next
    assume a: "\<forall>k. \<not> fault env k"
    have run: "addWorkflowInstance env p w
                  = (Inr ?inst,
                     w\<lparr>idCount := Suc (idCount w), tick := Suc (Suc (Suc (tick w))),
                       db := (db w)\<lparr>workflowInstances :=
                                setInstanceDoc ?inst (workflowInstances (db w))\<rparr>\<rparr>)"
      using cases3 nf[OF a] by blast
    show "\<exists>inst w'.
               addWorkflowInstance env p w = (Inr inst, w')
             \<and> wi_id inst = autoId env (idCount w)
             \<and> wi_workflowTemplateId inst = p_workflowTemplateId p
             \<and> wi_status inst = ACTIVE
             \<and> find (\<lambda>x. wi_id x = wi_id inst) (workflowInstances (db w')) = Some inst
             \<and> tasks (db w') = tasks (db w)"
      using run fnd by (simp add: newInstanceDoc_def)
  qed
qed

theorem unknown_template_creates_instance_without_tasks_witness:
  "find (\<lambda>t. wt_id t = p_workflowTemplateId (demoPayload\<lparr>p_workflowTemplateId := ''nope''\<rparr>))
       (workflowTemplates (db demoWorld)) = None
   \<and> (\<forall>k. \<not> fault demoEnv k)
   \<and> (\<exists>inst w'.
        addWorkflowInstance demoEnv (demoPayload\<lparr>p_workflowTemplateId := ''nope''\<rparr>) demoWorld
          = (Inr inst, w')
      \<and> wi_id inst = ''id'' \<and> wi_status inst = ACTIVE \<and> tasks (db w') = [doneTask, demoTask])"
proof -
  have h1: "find (\<lambda>t. wt_id t = p_workflowTemplateId (demoPayload\<lparr>p_workflowTemplateId := ''nope''\<rparr>))
       (workflowTemplates (db demoWorld)) = None"
    by (simp add: demoWorld_def demoPayload_def demoTemplate_def)
  have h2: "\<forall>k. \<not> fault demoEnv k" by (simp add: demoEnv_def)
  have v: "autoId demoEnv (idCount demoWorld) = ''id''" "tasks (db demoWorld) = [doneTask, demoTask]"
    by (simp_all add: demoEnv_def demoWorld_def)
  show ?thesis
    using unknown_template_creates_instance_without_tasks[OF h1, of demoEnv,
            THEN conjunct2, THEN conjunct2, THEN conjunct2, THEN mp, OF h2] h1 h2
    unfolding v by blast
qed
section \<open>A document field without a new value\<close>

text \<open>
  Claim C3.  When the new value set has no value for a document-upload field, the stored
  path should stay and no file should be touched.  \<open>updateDynamicTableEntry\<close> does the
  opposite where it matters: it runs its codec over every field of the table, archived or
  not, and treats a missing value like an explicit removal.  The table page gives the entry
  dialog only the fields that are not archived, so what the dialog submits has no property
  for an archived document field.  On the later small system the page shows the title field
  only; saving the row with its title deletes the file of the archived document field from
  the storage and stores null in its place, although nobody removed it.  The sibling
  \<open>updateTaskDynamicData\<close> skips archived fields: on the same input it leaves the storage
  as it is.
\<close>

theorem archived_document_field_loses_file:
  "map f_name (pageActiveFields titledTable (dynamicFields (db archivedDocWorld))) = [''title'']
   \<and> map f_name (entryTableFields (db archivedDocWorld) ''t1'') = [''doc'', ''title'']
   \<and> getProp [(''title'', Str ''Report'')] ''doc'' = Undefined
   \<and> getProp (e_data titledEntry) ''doc'' = Str ''files/a.png''
   \<and> map fst (objects archivedDocWorld) = [''files/a.png'']
   \<and> map_sum id e_data
        (fst (updateDynamicTableEntry demoEnv ''t1'' ''e1'' [(''title'', Str ''Report'')]
                (e_data titledEntry) archivedDocWorld))
       = Inr [(''title'', Str ''Report''), (''doc'', Null)]
   \<and> map (\<lambda>te. e_data (snd te))
        (tableEntries (db (snd (updateDynamicTableEntry demoEnv ''t1'' ''e1''
                                  [(''title'', Str ''Report'')] (e_data titledEntry)
                                  archivedDocWorld))))
       = [[(''title'', Str ''Report''), (''doc'', Null)]]
   \<and> objects (snd (updateDynamicTableEntry demoEnv ''t1'' ''e1'' [(''title'', Str ''Report'')]
                      (e_data titledEntry) archivedDocWorld))
       = []
   \<and> objects (snd (updateTaskDynamicData demoEnv ''k1'' [(''title'', Str ''Report'')]
                      (e_data titledEntry) archivedDocWorld))
       = objects archivedDocWorld"
  by code_simp
section \<open>Replacing a stored file\<close>

text \<open>
  Claim C4, as the code has it.  Take a document-upload field whose new value is a \<open>File\<close>
  and whose old stored path is a string that is not blank (not empty and not only white
  space), and no transport fault.  The codec first deletes the old object: the storage
  then holds the objects it held, without the one at the old path.  In that state it
  uploads the file to the path made of the entity kind (\<open>dynamicTableEntries\<close> or
  \<open>taskAttachments\<close>), the ids of the owning entity, the field name and the file name:
  the storage then holds the file at that path, and the other objects as they were.  The
  value it stores for the field is the path of the upload.  This is so in the codec of
  \<open>updateDynamicTableEntry\<close> and in the one of \<open>updateTaskDynamicData\<close>; and when the
  database can hold the other values of the new value set and the values of the old one,
  the document each of them writes and returns holds that path.
\<close>

theorem new_file_replaces_old_path:
  assumes nofault: "\<forall>k. \<not> fault env k"
      and doc: "f_type field = DOCUMENT_UPLOAD"
      and new: "getProp newData (f_name field) = FileV fl"
      and old: "getProp currentData (f_name field) = Str oldPath"
      and notblank: "\<not> trimIsEmpty oldPath"
  shows
    "(\<exists>w1 w2.
        deleteFileFromStorage env oldPath w = (Inr (), w1)
      \<and> objects w1 = filter (\<lambda>ob. fst ob \<noteq> fullPath env oldPath) (objects w)
      \<and> uploadFileToStorage env fl
           (joinSlash [''dynamicTableEntries'', tableId, entryId, f_name field, fileName fl]) w1
         = (Inr (fullPath env
              (joinSlash [''dynamicTableEntries'', tableId, entryId, f_name field, fileName fl])),
            w2)
      \<and> objects w2
         = (fullPath env
              (joinSlash [''dynamicTableEntries'', tableId, entryId, f_name field, fileName fl]),
            fl)
           # filter (\<lambda>ob. fst ob \<noteq> fullPath env
                (joinSlash [''dynamicTableEntries'', tableId, entryId, f_name field,
                            fileName fl])) (objects w1)
      \<and> entryFieldStep env tableId entryId newData currentData field processed w
         = (Inr (setProp processed (f_name field)
              (Str (fullPath env
                 (joinSlash [''dynamicTableEntries'', tableId, entryId, f_name field,
                             fileName fl])))), w2))
   \<and> (\<exists>w1 w2.
        deleteFileFromStorage env oldPath w = (Inr (), w1)
      \<and> objects w1 = filter (\<lambda>ob. fst ob \<noteq> fullPath env oldPath) (objects w)
      \<and> uploadFileToStorage env fl
           (joinSlash [''taskAttachments'', workflowInstanceId, taskId, f_name field, fileName fl])
           w1
         = (Inr (fullPath env
              (joinSlash [''taskAttachments'', workflowInstanceId, taskId, f_name field,
                          fileName fl])),
            w2)
      \<and> objects w2
         = (fullPath env
              (joinSlash [''taskAttachments'', workflowInstanceId, taskId, f_name field,
                          fileName fl]), fl)
           # filter (\<lambda>ob. fst ob \<noteq> fullPath env
                (joinSlash [''taskAttachments'', workflowInstanceId, taskId, f_name field,
                            fileName fl])) (objects w1)
      \<and> taskFieldStep env workflowInstanceId taskId newData currentData field processed w
         = (Inr (setProp processed (f_name field)
              (Str (fullPath env
                 (joinSlash [''taskAttachments'', workflowInstanceId, taskId, f_name field,
                             fileName fl])))), w2))
   \<and> (\<forall>td te0.
        find (\<lambda>t. t_id t = tableId) (dynamicTables (db w)) = Some td
      \<and> find (\<lambda>te. fst te = tableId \<and> e_id (snd te) = entryId) (tableEntries (db w)) = Some te0
      \<and> field \<in> set (dynamicFields (db w)) \<and> f_id field \<in> set (t_fieldIds td)
      \<and> valuesStorable (docFieldNames (entryTableFields (db w) tableId)) newData
      \<and> firestoreMap currentData
      \<longrightarrow> (\<exists>e w'.
             updateDynamicTableEntry env tableId entryId newData currentData w = (Inr e, w')
           \<and> find (\<lambda>te. fst te = tableId \<and> e_id (snd te) = entryId) (tableEntries (db w'))
               = Some (tableId, e)
           \<and> getProp (e_data e) (f_name field)
               = Str (fullPath env
                   (joinSlash [''dynamicTableEntries'', tableId, entryId, f_name field,
                               fileName fl]))))
   \<and> (\<forall>t0 tid td.
        find (\<lambda>t. tk_id t = taskId) (tasks (db w)) = Some t0
      \<and> tk_dynamicTableId t0 = Some tid \<and> tid \<noteq> []
      \<and> find (\<lambda>t. t_id t = tid) (dynamicTables (db w)) = Some td \<and> \<not> t_isArchived td
      \<and> field \<in> set (dynamicFields (db w)) \<and> f_id field \<in> set (t_fieldIds td)
      \<and> \<not> f_isArchived field
      \<and> valuesStorable (docFieldNames (taskTableFields (db w) t0)) newData
      \<and> firestoreMap currentData
      \<longrightarrow> (\<exists>t' w'.
             updateTaskDynamicData env taskId newData currentData w = (Inr t', w')
           \<and> find (\<lambda>t. tk_id t = taskId) (tasks (db w')) = Some t'
           \<and> getProp (tk_dynamicTableData t') (f_name field)
               = Str (fullPath env
                   (joinSlash [''taskAttachments'', tk_workflowInstanceId t0, taskId,
                               f_name field, fileName fl]))))"
proof (intro conjI allI impI)
  show "\<exists>w1 w2.
        deleteFileFromStorage env oldPath w = (Inr (), w1)
      \<and> objects w1 = filter (\<lambda>ob. fst ob \<noteq> fullPath env oldPath) (objects w)
      \<and> uploadFileToStorage env fl
           (joinSlash [''dynamicTableEntries'', tableId, entryId, f_name field, fileName fl]) w1
         = (Inr (fullPath env
              (joinSlash [''dynamicTableEntries'', tableId, entryId, f_name field, fileName fl])),
            w2)
      \<and> objects w2
         = (fullPath env
              (joinSlash [''dynamicTableEntries'', tableId, entryId, f_name field, fileName fl]),
            fl)
           # filter (\<lambda>ob. fst ob \<noteq> fullPath env
                (joinSlash [''dynamicTableEntries'', tableId, entryId, f_name field,
                            fileName fl])) (objects w1)
      \<and> entryFieldStep env tableId entryId newData currentData field processed w
         = (Inr (setProp processed (f_name field)
              (Str (fullPath env
                 (joinSlash [''dynamicTableEntries'', tableId, entryId, f_name field,
                             fileName fl])))), w2)"
    by (rule entry_upload_step[OF nofault doc new old notblank])
next
  show "\<exists>w1 w2.
        deleteFileFromStorage env oldPath w = (Inr (), w1)
      \<and> objects w1 = filter (\<lambda>ob. fst ob \<noteq> fullPath env oldPath) (objects w)
      \<and> uploadFileToStorage env fl
           (joinSlash [''taskAttachments'', workflowInstanceId, taskId, f_name field, fileName fl])
           w1
         = (Inr (fullPath env
              (joinSlash [''taskAttachments'', workflowInstanceId, taskId, f_name field,
                          fileName fl])),
            w2)
      \<and> objects w2
         = (fullPath env
              (joinSlash [''taskAttachments'', workflowInstanceId, taskId, f_name field,
                          fileName fl]), fl)
           # filter (\<lambda>ob. fst ob \<noteq> fullPath env
                (joinSlash [''taskAttachments'', workflowInstanceId, taskId, f_name field,
                            fileName fl])) (objects w1)
      \<and> taskFieldStep env workflowInstanceId taskId newData currentData field processed w
         = (Inr (setProp processed (f_name field)
              (Str (fullPath env
                 (joinSlash [''taskAttachments'', workflowInstanceId, taskId, f_name field,
                             fileName fl])))), w2)"
    by (rule task_upload_step[OF nofault doc new old notblank])
next
  fix td te0
  assume a: "find (\<lambda>t. t_id t = tableId) (dynamicTables (db w)) = Some td
      \<and> find (\<lambda>te. fst te = tableId \<and> e_id (snd te) = entryId) (tableEntries (db w)) = Some te0
      \<and> field \<in> set (dynamicFields (db w)) \<and> f_id field \<in> set (t_fieldIds td)
      \<and> valuesStorable (docFieldNames (entryTableFields (db w) tableId)) newData
      \<and> firestoreMap currentData"
  have v: "entryFieldValue env tableId entryId newData currentData (f_name field)
        = Str (fullPath env
             (joinSlash [''dynamicTableEntries'', tableId, entryId, f_name field, fileName fl]))"
    using new by (simp add: entryFieldValue_def)
  show "\<exists>e w'.
             updateDynamicTableEntry env tableId entryId newData currentData w = (Inr e, w')
           \<and> find (\<lambda>te. fst te = tableId \<and> e_id (snd te) = entryId) (tableEntries (db w'))
               = Some (tableId, e)
           \<and> getProp (e_data e) (f_name field)
               = Str (fullPath env
                   (joinSlash [''dynamicTableEntries'', tableId, entryId, f_name field,
                               fileName fl]))"
    using entry_whole_value[OF nofault, of tableId w td entryId te0 field newData currentData]
          a doc v by simp
next
  fix t0 tid td
  assume a: "find (\<lambda>t. tk_id t = taskId) (tasks (db w)) = Some t0
      \<and> tk_dynamicTableId t0 = Some tid \<and> tid \<noteq> []
      \<and> find (\<lambda>t. t_id t = tid) (dynamicTables (db w)) = Some td \<and> \<not> t_isArchived td
      \<and> field \<in> set (dynamicFields (db w)) \<and> f_id field \<in> set (t_fieldIds td)
      \<and> \<not> f_isArchived field
      \<and> valuesStorable (docFieldNames (taskTableFields (db w) t0)) newData
      \<and> firestoreMap currentData"
  have v: "taskFieldValue env (tk_workflowInstanceId t0) taskId newData currentData (f_name field)
        = Str (fullPath env
             (joinSlash [''taskAttachments'', tk_workflowInstanceId t0, taskId, f_name field,
                         fileName fl]))"
    using new by (simp add: taskFieldValue_def)
  show "\<exists>t' w'.
             updateTaskDynamicData env taskId newData currentData w = (Inr t', w')
           \<and> find (\<lambda>t. tk_id t = taskId) (tasks (db w')) = Some t'
           \<and> getProp (tk_dynamicTableData t') (f_name field)
               = Str (fullPath env
                   (joinSlash [''taskAttachments'', tk_workflowInstanceId t0, taskId,
                               f_name field, fileName fl]))"
    using task_whole_value[OF nofault, of taskId w t0 tid td field newData currentData]
          a doc v by simp
qed

text \<open>
  On the small system, with the new file \<open>b.png\<close> for the field \<open>doc\<close> whose stored path is
  \<open>files/a.png\<close>: after the step of the entry codec, and after each whole update, the
  storage holds the new file only, and both updates store the path of the upload.
\<close>

theorem new_file_replaces_old_path_witness:
  "(\<forall>k. \<not> fault demoEnv k)
   \<and> f_type docField = DOCUMENT_UPLOAD
   \<and> getProp [(''doc'', FileV demoFile)] (f_name docField) = FileV demoFile
   \<and> getProp [(''doc'', Str ''files/a.png'')] (f_name docField) = Str ''files/a.png''
   \<and> \<not> trimIsEmpty ''files/a.png''
   \<and> find (\<lambda>t. t_id t = ''t1'') (dynamicTables (db demoWorld)) = Some demoTable
   \<and> find (\<lambda>te. fst te = ''t1'' \<and> e_id (snd te) = ''e1'') (tableEntries (db demoWorld))
       = Some (''t1'', demoEntry)
   \<and> docField \<in> set (dynamicFields (db demoWorld)) \<and> f_id docField \<in> set (t_fieldIds demoTable)
   \<and> find (\<lambda>t. tk_id t = ''k1'') (tasks (db demoWorld)) = Some demoTask
   \<and> tk_dynamicTableId demoTask = Some ''t1'' \<and> ''t1'' \<noteq> []
   \<and> \<not> t_isArchived demoTable \<and> \<not> f_isArchived docField
   \<and> valuesStorable (docFieldNames (entryTableFields (db demoWorld) ''t1''))
        [(''doc'', FileV demoFile)]
   \<and> valuesStorable (docFieldNames (taskTableFields (db demoWorld) demoTask))
        [(''doc'', FileV demoFile)]
   \<and> firestoreMap [(''doc'', Str ''files/a.png'')]
   \<and> map fst (objects demoWorld) = [''files/a.png'']
   \<and> (\<exists>w1 w2 pd.
         deleteFileFromStorage demoEnv ''files/a.png'' demoWorld = (Inr (), w1)
       \<and> objects w1 = []
       \<and> entryFieldStep demoEnv ''t1'' ''e1'' [(''doc'', FileV demoFile)]
            [(''doc'', Str ''files/a.png'')] docField [(''doc'', FileV demoFile)] demoWorld
           = (Inr pd, w2)
       \<and> pd = [(''doc'', Str ''dynamicTableEntries/t1/e1/doc/b.png'')]
       \<and> objects w2 = [(''dynamicTableEntries/t1/e1/doc/b.png'', demoFile)])
   \<and> (\<exists>e w'.
         updateDynamicTableEntry demoEnv ''t1'' ''e1'' [(''doc'', FileV demoFile)]
            [(''doc'', Str ''files/a.png'')] demoWorld = (Inr e, w')
       \<and> getProp (e_data e) ''doc'' = Str ''dynamicTableEntries/t1/e1/doc/b.png'')
   \<and> (\<exists>t' w'.
         updateTaskDynamicData demoEnv ''k1'' [(''doc'', FileV demoFile)]
            [(''doc'', Str ''files/a.png'')] demoWorld = (Inr t', w')
       \<and> getProp (tk_dynamicTableData t') ''doc'' = Str ''taskAttachments/i1/k1/doc/b.png'')
   \<and> map fst (objects (snd (updateDynamicTableEntry demoEnv ''t1'' ''e1''
                               [(''doc'', FileV demoFile)] [(''doc'', Str ''files/a.png'')]
                               demoWorld)))
       = [''dynamicTableEntries/t1/e1/doc/b.png'']
   \<and> map fst (objects (snd (updateTaskDynamicData demoEnv ''k1''
                               [(''doc'', FileV demoFile)] [(''doc'', Str ''files/a.png'')]
                               demoWorld)))
       = [''taskAttachments/i1/k1/doc/b.png'']"
proof -
  have h1: "\<forall>k. \<not> fault demoEnv k" by (simp add: demoEnv_def)
  have h2: "f_type docField = DOCUMENT_UPLOAD" by (simp add: docField_def)
  have h3: "getProp [(''doc'', FileV demoFile)] (f_name docField) = FileV demoFile"
    by (simp add: getProp_def docField_def)
  have h4: "getProp [(''doc'', Str ''files/a.png'')] (f_name docField) = Str ''files/a.png''"
    by (simp add: getProp_def docField_def)
  have h5: "\<not> trimIsEmpty ''files/a.png''" by (simp add: trimIsEmpty_def jsWhitespace_def)
  have e1: "find (\<lambda>t. t_id t = ''t1'') (dynamicTables (db demoWorld)) = Some demoTable"
    by (simp add: demoWorld_def demoTable_def)
  have e2: "find (\<lambda>te. fst te = ''t1'' \<and> e_id (snd te) = ''e1'') (tableEntries (db demoWorld))
       = Some (''t1'', demoEntry)"
    by (simp add: demoWorld_def demoEntry_def)
  have e3: "docField \<in> set (dynamicFields (db demoWorld))"
           "f_id docField \<in> set (t_fieldIds demoTable)"
    by (simp_all add: demoWorld_def demoTable_def docField_def)
  have k1: "find (\<lambda>t. tk_id t = ''k1'') (tasks (db demoWorld)) = Some demoTask"
    by (simp add: demoWorld_def demoTask_def doneTask_def)
  have k2: "tk_dynamicTableId demoTask = Some ''t1''" "''t1'' \<noteq> []"
           "\<not> t_isArchived demoTable" "\<not> f_isArchived docField"
           "tk_workflowInstanceId demoTask = ''i1''"
    by (simp_all add: demoTask_def demoTable_def docField_def)
  have s1: "valuesStorable (docFieldNames (entryTableFields (db demoWorld) ''t1''))
              [(''doc'', FileV demoFile)]"
    by code_simp
  have s2: "valuesStorable (docFieldNames (taskTableFields (db demoWorld) demoTask))
              [(''doc'', FileV demoFile)]"
    by code_simp
  have s3: "firestoreMap [(''doc'', Str ''files/a.png'')]"
    by code_simp
  have ob: "objects demoWorld = [(''files/a.png'', \<lparr>fileName = ''a.png'', fileBytes = ''old''\<rparr>)]"
    by (simp add: demoWorld_def)
  have nm: "f_name docField = ''doc''" "fileName demoFile = ''b.png''"
           "\<And>p. fullPath demoEnv p = p"
    by (simp_all add: docField_def demoFile_def demoEnv_def)
  note inst = new_file_replaces_old_path[OF h1 h2 h3 h4 h5,
      where tableId = "''t1''" and entryId = "''e1''" and w = demoWorld and taskId = "''k1''"
        and processed = "[(''doc'', FileV demoFile)]"]
  have st: "\<exists>w1 w2 pd.
         deleteFileFromStorage demoEnv ''files/a.png'' demoWorld = (Inr (), w1)
       \<and> objects w1 = []
       \<and> entryFieldStep demoEnv ''t1'' ''e1'' [(''doc'', FileV demoFile)]
            [(''doc'', Str ''files/a.png'')] docField [(''doc'', FileV demoFile)] demoWorld
           = (Inr pd, w2)
       \<and> pd = [(''doc'', Str ''dynamicTableEntries/t1/e1/doc/b.png'')]
       \<and> objects w2 = [(''dynamicTableEntries/t1/e1/doc/b.png'', demoFile)]"
    using inst[THEN conjunct1] by (auto simp: nm ob)
  have a: "\<exists>e w'.
         updateDynamicTableEntry demoEnv ''t1'' ''e1'' [(''doc'', FileV demoFile)]
            [(''doc'', Str ''files/a.png'')] demoWorld = (Inr e, w')
       \<and> getProp (e_data e) ''doc'' = Str ''dynamicTableEntries/t1/e1/doc/b.png''"
    using inst[THEN conjunct2, THEN conjunct2, THEN conjunct1, rule_format,
              of demoTable "(''t1'', demoEntry)"] e1 e2 e3 s1 s3
    by (simp add: nm) blast
  have b: "\<exists>t' w'.
         updateTaskDynamicData demoEnv ''k1'' [(''doc'', FileV demoFile)]
            [(''doc'', Str ''files/a.png'')] demoWorld = (Inr t', w')
       \<and> getProp (tk_dynamicTableData t') ''doc'' = Str ''taskAttachments/i1/k1/doc/b.png''"
    using inst[THEN conjunct2, THEN conjunct2, THEN conjunct2, rule_format,
              of demoTask "''t1''" demoTable] e1 e3 k1 k2 s2 s3
    by (simp add: nm) blast
  have obs: "map fst (objects demoWorld) = [''files/a.png'']" by (simp add: ob)
  have whole: "map fst (objects (snd (updateDynamicTableEntry demoEnv ''t1'' ''e1''
                               [(''doc'', FileV demoFile)] [(''doc'', Str ''files/a.png'')]
                               demoWorld)))
                 = [''dynamicTableEntries/t1/e1/doc/b.png'']"
              "map fst (objects (snd (updateTaskDynamicData demoEnv ''k1''
                               [(''doc'', FileV demoFile)] [(''doc'', Str ''files/a.png'')]
                               demoWorld)))
                 = [''taskAttachments/i1/k1/doc/b.png'']"
    by code_simp+
  show ?thesis
    using h1 h2 h3 h4 h5 e1 e2 e3 k1 k2(1-4) s1 s2 s3 obs st a b whole by simp
qed

text \<open>
  The claim as the specification words it fails for an old stored path that is only white
  space: on the small system with such a path, \<open>deleteFileFromStorage\<close> returns without
  calling the storage, and after the replacement the object of that name is still there,
  next to the new one.
\<close>

theorem blank_old_path_survives_replacement_counterexample:
  "getProp [(''doc'', Str ''  '')] ''doc'' = Str ''  '' \<and> ''  '' \<noteq> []
   \<and> map fst (objects blankPathWorld) = [''  '']
   \<and> map_sum id e_data
        (fst (updateDynamicTableEntry demoEnv ''t1'' ''e1'' [(''doc'', FileV demoFile)]
                [(''doc'', Str ''  '')] blankPathWorld))
       = Inr [(''doc'', Str ''dynamicTableEntries/t1/e1/doc/b.png'')]
   \<and> map fst (objects (snd (updateDynamicTableEntry demoEnv ''t1'' ''e1''
                               [(''doc'', FileV demoFile)] [(''doc'', Str ''  '')]
                               blankPathWorld)))
       = [''dynamicTableEntries/t1/e1/doc/b.png'', ''  '']
   \<and> map_sum id tk_dynamicTableData
        (fst (updateTaskDynamicData demoEnv ''k1'' [(''doc'', FileV demoFile)]
                [(''doc'', Str ''  '')] blankPathWorld))
       = Inr [(''doc'', Str ''taskAttachments/i1/k1/doc/b.png'')]
   \<and> map fst (objects (snd (updateTaskDynamicData demoEnv ''k1''
                               [(''doc'', FileV demoFile)] [(''doc'', Str ''  '')]
                               blankPathWorld)))
       = [''taskAttachments/i1/k1/doc/b.png'', ''  '']"
  by code_simp
section \<open>Clearing a stored file; deleting twice\<close>

text \<open>
  Claim C5, as the code has it.  Take a document-upload field whose new value is \<open>null\<close>
  or the empty string and whose old stored path is a string that is not blank (not empty
  and not only white space), and no transport fault.  The codec deletes the old object,
  after which the storage holds the objects it held except the one at the old path, and
  stores \<open>null\<close> for the field, in \<open>updateDynamicTableEntry\<close> and in
  \<open>updateTaskDynamicData\<close>; and when the database can hold the other values of the new
  value set and the values of the old one, the document each of them writes and returns
  holds \<open>null\<close>.  Deleting what is not there is not an error: where the storage has no
  object at a path, it answers object-not-found and \<open>deleteFileFromStorage\<close> still
  returns, leaving the storage as it was; so a second delete of the old path succeeds too.
\<close>

theorem clearing_deletes_old_file:
  assumes nofault: "\<forall>k. \<not> fault env k"
      and doc: "f_type field = DOCUMENT_UPLOAD"
      and new: "getProp newData (f_name field) = Null \<or> getProp newData (f_name field) = Str []"
      and old: "getProp currentData (f_name field) = Str oldPath"
      and notblank: "\<not> trimIsEmpty oldPath"
  shows
    "(\<exists>w1.
        deleteFileFromStorage env oldPath w = (Inr (), w1)
      \<and> objects w1 = filter (\<lambda>ob. fst ob \<noteq> fullPath env oldPath) (objects w)
      \<and> fullPath env oldPath \<notin> fst ` set (objects w1)
      \<and> entryFieldStep env tableId entryId newData currentData field processed w
         = (Inr (setProp processed (f_name field) Null), w1))
   \<and> (\<exists>w1.
        deleteFileFromStorage env oldPath w = (Inr (), w1)
      \<and> objects w1 = filter (\<lambda>ob. fst ob \<noteq> fullPath env oldPath) (objects w)
      \<and> fullPath env oldPath \<notin> fst ` set (objects w1)
      \<and> taskFieldStep env workflowInstanceId taskId newData currentData field processed w
         = (Inr (setProp processed (f_name field) Null), w1))
   \<and> (\<forall>td te0.
        find (\<lambda>t. t_id t = tableId) (dynamicTables (db w)) = Some td
      \<and> find (\<lambda>te. fst te = tableId \<and> e_id (snd te) = entryId) (tableEntries (db w)) = Some te0
      \<and> field \<in> set (dynamicFields (db w)) \<and> f_id field \<in> set (t_fieldIds td)
      \<and> valuesStorable (docFieldNames (entryTableFields (db w) tableId)) newData
      \<and> firestoreMap currentData
      \<longrightarrow> (\<exists>e w'.
             updateDynamicTableEntry env tableId entryId newData currentData w = (Inr e, w')
           \<and> find (\<lambda>te. fst te = tableId \<and> e_id (snd te) = entryId) (tableEntries (db w'))
               = Some (tableId, e)
           \<and> getProp (e_data e) (f_name field) = Null))
   \<and> (\<forall>t0 tid td.
        find (\<lambda>t. tk_id t = taskId) (tasks (db w)) = Some t0
      \<and> tk_dynamicTableId t0 = Some tid \<and> tid \<noteq> []
      \<and> find (\<lambda>t. t_id t = tid) (dynamicTables (db w)) = Some td \<and> \<not> t_isArchived td
      \<and> field \<in> set (dynamicFields (db w)) \<and> f_id field \<in> set (t_fieldIds td)
      \<and> \<not> f_isArchived field
      \<and> valuesStorable (docFieldNames (taskTableFields (db w) t0)) newData
      \<and> firestoreMap currentData
      \<longrightarrow> (\<exists>t' w'.
             updateTaskDynamicData env taskId newData currentData w = (Inr t', w')
           \<and> find (\<lambda>t. tk_id t = taskId) (tasks (db w')) = Some t'
           \<and> getProp (tk_dynamicTableData t') (f_name field) = Null))
   \<and> (\<forall>p. fullPath env p \<notin> fst ` set (objects w)
        \<longrightarrow> (\<exists>w'. deleteFileFromStorage env p w = (Inr (), w')
                  \<and> objects w' = objects w \<and> db w' = db w)
          \<and> (p \<noteq> [] \<and> \<not> trimIsEmpty p
               \<longrightarrow> fst (deleteObject env p w) = Inl StorageObjectNotFound))
   \<and> (\<exists>w1 w2. deleteFileFromStorage env oldPath w = (Inr (), w1)
            \<and> deleteFileFromStorage env oldPath w1 = (Inr (), w2)
            \<and> objects w2 = objects w1)"
proof -
  have new3: "getProp newData (f_name field) = Null \<or> getProp newData (f_name field) = Undefined
                \<or> getProp newData (f_name field) = Str []"
    using new by blast
  have ne: "oldPath \<noteq> []" using notblank by (rule not_blank_nonempty)
  have es: "\<exists>w1.
        deleteFileFromStorage env oldPath w = (Inr (), w1)
      \<and> objects w1 = filter (\<lambda>ob. fst ob \<noteq> fullPath env oldPath) (objects w)
      \<and> fullPath env oldPath \<notin> fst ` set (objects w1)
      \<and> entryFieldStep env tableId entryId newData currentData field processed w
         = (Inr (setProp processed (f_name field) Null), w1)"
    using entry_clear_step[OF nofault doc new3 old notblank,
            where tableId = tableId and entryId = entryId and processed = processed and w = w]
    by auto
  have ts: "\<exists>w1.
        deleteFileFromStorage env oldPath w = (Inr (), w1)
      \<and> objects w1 = filter (\<lambda>ob. fst ob \<noteq> fullPath env oldPath) (objects w)
      \<and> fullPath env oldPath \<notin> fst ` set (objects w1)
      \<and> taskFieldStep env workflowInstanceId taskId newData currentData field processed w
         = (Inr (setProp processed (f_name field) Null), w1)"
    using task_clear_step[OF nofault doc new3 old notblank,
            where wfid = workflowInstanceId and taskId = taskId and processed = processed
              and w = w]
    by auto
  have ev: "entryFieldValue env tableId entryId newData currentData (f_name field) = Null"
    using new3 by (auto simp: entryFieldValue_def)
  have tv: "\<And>wf. taskFieldValue env wf taskId newData currentData (f_name field) = Null"
    using new3 old ne by (auto simp: taskFieldValue_def)
  have ew: "\<forall>td te0.
        find (\<lambda>t. t_id t = tableId) (dynamicTables (db w)) = Some td
      \<and> find (\<lambda>te. fst te = tableId \<and> e_id (snd te) = entryId) (tableEntries (db w)) = Some te0
      \<and> field \<in> set (dynamicFields (db w)) \<and> f_id field \<in> set (t_fieldIds td)
      \<and> valuesStorable (docFieldNames (entryTableFields (db w) tableId)) newData
      \<and> firestoreMap currentData
      \<longrightarrow> (\<exists>e w'.
             updateDynamicTableEntry env tableId entryId newData currentData w = (Inr e, w')
           \<and> find (\<lambda>te. fst te = tableId \<and> e_id (snd te) = entryId) (tableEntries (db w'))
               = Some (tableId, e)
           \<and> getProp (e_data e) (f_name field) = Null)"
  proof (intro allI impI)
    fix td te0
    assume a: "        find (\<lambda>t. t_id t = tableId) (dynamicTables (db w)) = Some td
      \<and> find (\<lambda>te. fst te = tableId \<and> e_id (snd te) = entryId) (tableEntries (db w)) = Some te0
      \<and> field \<in> set (dynamicFields (db w)) \<and> f_id field \<in> set (t_fieldIds td)
      \<and> valuesStorable (docFieldNames (entryTableFields (db w) tableId)) newData
      \<and> firestoreMap currentData"
    show "\<exists>e w'.
             updateDynamicTableEntry env tableId entryId newData currentData w = (Inr e, w')
           \<and> find (\<lambda>te. fst te = tableId \<and> e_id (snd te) = entryId) (tableEntries (db w'))
               = Some (tableId, e)
           \<and> getProp (e_data e) (f_name field) = Null"
      using entry_whole_value[OF nofault, of tableId w td entryId te0 field newData currentData]
            a doc ev by simp
  qed
  have tw: "\<forall>t0 tid td.
        find (\<lambda>t. tk_id t = taskId) (tasks (db w)) = Some t0
      \<and> tk_dynamicTableId t0 = Some tid \<and> tid \<noteq> []
      \<and> find (\<lambda>t. t_id t = tid) (dynamicTables (db w)) = Some td \<and> \<not> t_isArchived td
      \<and> field \<in> set (dynamicFields (db w)) \<and> f_id field \<in> set (t_fieldIds td)
      \<and> \<not> f_isArchived field
      \<and> valuesStorable (docFieldNames (taskTableFields (db w) t0)) newData
      \<and> firestoreMap currentData
      \<longrightarrow> (\<exists>t' w'.
             updateTaskDynamicData env taskId newData currentData w = (Inr t', w')
           \<and> find (\<lambda>t. tk_id t = taskId) (tasks (db w')) = Some t'
           \<and> getProp (tk_dynamicTableData t') (f_name field) = Null)"
  proof (intro allI impI)
    fix t0 tid td
    assume a: "        find (\<lambda>t. tk_id t = taskId) (tasks (db w)) = Some t0
      \<and> tk_dynamicTableId t0 = Some tid \<and> tid \<noteq> []
      \<and> find (\<lambda>t. t_id t = tid) (dynamicTables (db w)) = Some td \<and> \<not> t_isArchived td
      \<and> field \<in> set (dynamicFields (db w)) \<and> f_id field \<in> set (t_fieldIds td)
      \<and> \<not> f_isArchived field
      \<and> valuesStorable (docFieldNames (taskTableFields (db w) t0)) newData
      \<and> firestoreMap currentData"
    show "\<exists>t' w'.
             updateTaskDynamicData env taskId newData currentData w = (Inr t', w')
           \<and> find (\<lambda>t. tk_id t = taskId) (tasks (db w')) = Some t'
           \<and> getProp (tk_dynamicTableData t') (f_name field) = Null"
      using task_whole_value[OF nofault, of taskId w t0 tid td field newData currentData]
            a doc tv by simp
  qed
  have idem: "\<forall>p. fullPath env p \<notin> fst ` set (objects w)
        \<longrightarrow> (\<exists>w'. deleteFileFromStorage env p w = (Inr (), w')
                  \<and> objects w' = objects w \<and> db w' = db w)
          \<and> (p \<noteq> [] \<and> \<not> trimIsEmpty p
               \<longrightarrow> fst (deleteObject env p w) = Inl StorageObjectNotFound)"
  proof (intro allI impI conjI)
    fix p assume a: "fullPath env p \<notin> fst ` set (objects w)"
    show "\<exists>w'. deleteFileFromStorage env p w = (Inr (), w')
                  \<and> objects w' = objects w \<and> db w' = db w"
      using deleteFileFromStorage_ok[of env w p] nofault a
      by (auto simp: filter_absent_key)
  next
    fix p assume a: "fullPath env p \<notin> fst ` set (objects w)"
    show "fst (deleteObject env p w) = Inl StorageObjectNotFound"
      using nofault a by (simp add: deleteObject_def io_defs)
  qed
  have twice: "\<exists>w1 w2. deleteFileFromStorage env oldPath w = (Inr (), w1)
            \<and> deleteFileFromStorage env oldPath w1 = (Inr (), w2)
            \<and> objects w2 = objects w1"
  proof -
    obtain w1 where d1: "deleteFileFromStorage env oldPath w = (Inr (), w1)"
        "objects w1 = filter (\<lambda>ob. fst ob \<noteq> fullPath env oldPath) (objects w)"
      using deleteFileFromStorage_ok[of env w oldPath] nofault notblank ne by auto
    have gone: "fullPath env oldPath \<notin> fst ` set (objects w1)"
      using d1(2) by auto
    obtain w2 where d2: "deleteFileFromStorage env oldPath w1 = (Inr (), w2)"
        "objects w2 = objects w1"
      using deleteFileFromStorage_ok[of env w1 oldPath] nofault gone
      by (auto simp: filter_absent_key)
    with d1(1) show ?thesis by blast
  qed
  show ?thesis
    using es ts ew tw idem twice by blast
qed

text \<open>
  On the small system, with \<open>null\<close> for the field \<open>doc\<close> whose stored path is
  \<open>files/a.png\<close>: after the step of the entry codec, and after each whole update, the
  storage is empty; both updates store \<open>null\<close>; and deleting a file that is not there
  returns although the storage answered object-not-found.
\<close>

theorem clearing_deletes_old_file_witness:
  "(\<forall>k. \<not> fault demoEnv k)
   \<and> f_type docField = DOCUMENT_UPLOAD
   \<and> (getProp [(''doc'', Null)] (f_name docField) = Null
        \<or> getProp [(''doc'', Null)] (f_name docField) = Str [])
   \<and> getProp [(''doc'', Str ''files/a.png'')] (f_name docField) = Str ''files/a.png''
   \<and> \<not> trimIsEmpty ''files/a.png''
   \<and> find (\<lambda>t. t_id t = ''t1'') (dynamicTables (db demoWorld)) = Some demoTable
   \<and> find (\<lambda>te. fst te = ''t1'' \<and> e_id (snd te) = ''e1'') (tableEntries (db demoWorld))
       = Some (''t1'', demoEntry)
   \<and> docField \<in> set (dynamicFields (db demoWorld)) \<and> f_id docField \<in> set (t_fieldIds demoTable)
   \<and> find (\<lambda>t. tk_id t = ''k1'') (tasks (db demoWorld)) = Some demoTask
   \<and> tk_dynamicTableId demoTask = Some ''t1'' \<and> ''t1'' \<noteq> []
   \<and> \<not> t_isArchived demoTable \<and> \<not> f_isArchived docField
   \<and> valuesStorable (docFieldNames (entryTableFields (db demoWorld) ''t1'')) [(''doc'', Null)]
   \<and> valuesStorable (docFieldNames (taskTableFields (db demoWorld) demoTask)) [(''doc'', Null)]
   \<and> firestoreMap [(''doc'', Str ''files/a.png'')]
   \<and> map fst (objects demoWorld) = [''files/a.png'']
   \<and> (\<exists>w1 pd.
         entryFieldStep demoEnv ''t1'' ''e1'' [(''doc'', Null)]
            [(''doc'', Str ''files/a.png'')] docField [(''doc'', Null)] demoWorld
           = (Inr pd, w1)
       \<and> pd = [(''doc'', Null)] \<and> objects w1 = [])
   \<and> (\<exists>e w'.
         updateDynamicTableEntry demoEnv ''t1'' ''e1'' [(''doc'', Null)]
            [(''doc'', Str ''files/a.png'')] demoWorld = (Inr e, w')
       \<and> getProp (e_data e) ''doc'' = Null)
   \<and> (\<exists>t' w'.
         updateTaskDynamicData demoEnv ''k1'' [(''doc'', Null)]
            [(''doc'', Str ''files/a.png'')] demoWorld = (Inr t', w')
       \<and> getProp (tk_dynamicTableData t') ''doc'' = Null)
   \<and> (\<exists>w'. deleteFileFromStorage demoEnv ''files/none.png'' demoWorld = (Inr (), w')
          \<and> objects w' = objects demoWorld)
   \<and> fst (deleteObject demoEnv ''files/none.png'' demoWorld) = Inl StorageObjectNotFound
   \<and> objects (snd (updateDynamicTableEntry demoEnv ''t1'' ''e1'' [(''doc'', Null)]
                      [(''doc'', Str ''files/a.png'')] demoWorld))
       = []
   \<and> objects (snd (updateTaskDynamicData demoEnv ''k1'' [(''doc'', Null)]
                      [(''doc'', Str ''files/a.png'')] demoWorld))
       = []"
proof -
  have h1: "\<forall>k. \<not> fault demoEnv k" by (simp add: demoEnv_def)
  have h2: "f_type docField = DOCUMENT_UPLOAD" by (simp add: docField_def)
  have h3: "(getProp [(''doc'', Null)] (f_name docField) = Null
               \<or> getProp [(''doc'', Null)] (f_name docField) = Str [])"
    by (simp add: getProp_def docField_def)
  have h4: "getProp [(''doc'', Str ''files/a.png'')] (f_name docField) = Str ''files/a.png''"
    by (simp add: getProp_def docField_def)
  have h5: "\<not> trimIsEmpty ''files/a.png''" by (simp add: trimIsEmpty_def jsWhitespace_def)
  have e1: "find (\<lambda>t. t_id t = ''t1'') (dynamicTables (db demoWorld)) = Some demoTable"
    by (simp add: demoWorld_def demoTable_def)
  have e2: "find (\<lambda>te. fst te = ''t1'' \<and> e_id (snd te) = ''e1'') (tableEntries (db demoWorld))
       = Some (''t1'', demoEntry)"
    by (simp add: demoWorld_def demoEntry_def)
  have e3: "docField \<in> set (dynamicFields (db demoWorld))"
           "f_id docField \<in> set (t_fieldIds demoTable)"
    by (simp_all add: demoWorld_def demoTable_def docField_def)
  have k1: "find (\<lambda>t. tk_id t = ''k1'') (tasks (db demoWorld)) = Some demoTask"
    by (simp add: demoWorld_def demoTask_def doneTask_def)
  have k2: "tk_dynamicTableId demoTask = Some ''t1''" "''t1'' \<noteq> []"
           "\<not> t_isArchived demoTable" "\<not> f_isArchived docField"
    by (simp_all add: demoTask_def demoTable_def docField_def)
  have s1: "valuesStorable (docFieldNames (entryTableFields (db demoWorld) ''t1''))
              [(''doc'', Null)]"
    by code_simp
  have s2: "valuesStorable (docFieldNames (taskTableFields (db demoWorld) demoTask))
              [(''doc'', Null)]"
    by code_simp
  have s3: "firestoreMap [(''doc'', Str ''files/a.png'')]"
    by code_simp
  have ob: "objects demoWorld = [(''files/a.png'', \<lparr>fileName = ''a.png'', fileBytes = ''old''\<rparr>)]"
    by (simp add: demoWorld_def)
  have nm: "f_name docField = ''doc''" "\<And>p. fullPath demoEnv p = p"
    by (simp_all add: docField_def demoEnv_def)
  note inst = clearing_deletes_old_file[OF h1 h2 h3 h4 h5,
      where tableId = "''t1''" and entryId = "''e1''" and w = demoWorld and taskId = "''k1''"
        and processed = "[(''doc'', Null)]"]
  have st: "\<exists>w1 pd.
         entryFieldStep demoEnv ''t1'' ''e1'' [(''doc'', Null)]
            [(''doc'', Str ''files/a.png'')] docField [(''doc'', Null)] demoWorld
           = (Inr pd, w1)
       \<and> pd = [(''doc'', Null)] \<and> objects w1 = []"
    using inst[THEN conjunct1] by (auto simp: nm ob)
  have a: "\<exists>e w'.
         updateDynamicTableEntry demoEnv ''t1'' ''e1'' [(''doc'', Null)]
            [(''doc'', Str ''files/a.png'')] demoWorld = (Inr e, w')
       \<and> getProp (e_data e) ''doc'' = Null"
    using inst[THEN conjunct2, THEN conjunct2, THEN conjunct1, rule_format,
              of demoTable "(''t1'', demoEntry)"] e1 e2 e3 s1 s3
    by (simp add: nm) blast
  have b: "\<exists>t' w'.
         updateTaskDynamicData demoEnv ''k1'' [(''doc'', Null)]
            [(''doc'', Str ''files/a.png'')] demoWorld = (Inr t', w')
       \<and> getProp (tk_dynamicTableData t') ''doc'' = Null"
    using inst[THEN conjunct2, THEN conjunct2, THEN conjunct2, THEN conjunct1, rule_format,
              of demoTask "''t1''" demoTable] e1 e3 k1 k2 s2 s3
    by (simp add: nm) blast
  have ab: "fullPath demoEnv ''files/none.png'' \<notin> fst ` set (objects demoWorld)"
    by (simp add: demoEnv_def demoWorld_def)
  have nb: "''files/none.png'' \<noteq> [] \<and> \<not> trimIsEmpty ''files/none.png''"
    by (simp add: trimIsEmpty_def jsWhitespace_def)
  have c: "(\<exists>w'. deleteFileFromStorage demoEnv ''files/none.png'' demoWorld = (Inr (), w')
          \<and> objects w' = objects demoWorld)
   \<and> fst (deleteObject demoEnv ''files/none.png'' demoWorld) = Inl StorageObjectNotFound"
    using inst[THEN conjunct2, THEN conjunct2, THEN conjunct2, THEN conjunct2, THEN conjunct1,
               rule_format, of "''files/none.png''"] ab nb
    by blast
  have obs: "map fst (objects demoWorld) = [''files/a.png'']" by (simp add: ob)
  have whole: "objects (snd (updateDynamicTableEntry demoEnv ''t1'' ''e1'' [(''doc'', Null)]
                      [(''doc'', Str ''files/a.png'')] demoWorld))
                 = []"
              "objects (snd (updateTaskDynamicData demoEnv ''k1'' [(''doc'', Null)]
                      [(''doc'', Str ''files/a.png'')] demoWorld))
                 = []"
    by code_simp+
  show ?thesis
    using h1 h2 h3 h4 h5 e1 e2 e3 k1 k2 s1 s2 s3 obs st a b c whole by simp
qed

text \<open>
  The claim as the specification words it fails for an old stored path that is only white
  space: on the small system with such a path, the codec stores \<open>null\<close> but
  \<open>deleteFileFromStorage\<close> returns without calling the storage, and the object of that
  name is still there afterwards.
\<close>

theorem blank_old_path_survives_clearing_counterexample:
  "getProp [(''doc'', Str ''  '')] ''doc'' = Str ''  '' \<and> ''  '' \<noteq> []
   \<and> map fst (objects blankPathWorld) = [''  '']
   \<and> map_sum id e_data
        (fst (updateDynamicTableEntry demoEnv ''t1'' ''e1'' [(''doc'', Null)]
                [(''doc'', Str ''  '')] blankPathWorld))
       = Inr [(''doc'', Null)]
   \<and> map fst (objects (snd (updateDynamicTableEntry demoEnv ''t1'' ''e1''
                               [(''doc'', Null)] [(''doc'', Str ''  '')] blankPathWorld)))
       = [''  '']
   \<and> map_sum id tk_dynamicTableData
        (fst (updateTaskDynamicData demoEnv ''k1'' [(''doc'', Null)]
                [(''doc'', Str ''  '')] blankPathWorld))
       = Inr [(''doc'', Null)]
   \<and> map fst (objects (snd (updateTaskDynamicData demoEnv ''k1''
                               [(''doc'', Null)] [(''doc'', Str ''  '')] blankPathWorld)))
       = [''  '']"
  by code_simp

section \<open>Default values\<close>

text \<open>
  Claim C6.  With no initial value and no configured default, a boolean-toggle field should
  default to \<open>false\<close> and a checkbox-group field to the empty array.  The entry dialog does
  so; the task form does not: for the same fields it leaves the value \<open>undefined\<close>,
  because its fallbacks stand under the test that a default is configured.  Both forms give
  a document-upload field \<open>null\<close>.
\<close>

theorem task_form_defaults_without_configured_default:
  "f_defaultValue flagField = Undefined \<and> f_type flagField = BOOLEAN_TOGGLE
   \<and> f_defaultValue tagsField = Undefined \<and> f_type tagsField = CHECKBOX_GROUP
   \<and> getProp (taskFormDefaults [] [flagField, tagsField, docField]) ''flag'' = Undefined
   \<and> getProp (taskFormDefaults [] [flagField, tagsField, docField]) ''tags'' = Undefined
   \<and> getProp (taskFormDefaults [] [flagField, tagsField, docField]) ''doc'' = Null
   \<and> dialogDefaultValues (Some demoTable) [flagField, tagsField, docField] None
       = Some [(''flag'', Bool False), (''tags'', Arr []), (''doc'', Null)]"
  by (simp add: taskFormDefaults_def taskFormFieldDefault_def dialogDefaultValues_def
                dialogFieldDefault_def flagField_def tagsField_def docField_def getProp_def
                nullish_def)

section \<open>The validator\<close>

lemma map_of_setShape:
  "map_of (setShape sh k s) k' = (if k' = k then Some s else map_of sh k')"
  by (induction sh k s rule: setShape.induct) auto

lemma buildShape_other:
  "buildShape lib fs sh = Inr sh' \<Longrightarrow> n \<notin> f_name ` set fs \<Longrightarrow> map_of sh' n = map_of sh n"
proof (induction fs arbitrary: sh)
  case Nil
  then show ?case by simp
next
  case (Cons f rest)
  then show ?case
    by (auto simp: map_of_setShape split: sum.splits)
qed

lemma buildShape_lookup:
  "buildShape lib fs sh = Inr sh' \<Longrightarrow> distinct (map f_name fs) \<Longrightarrow> f \<in> set fs \<Longrightarrow>
     \<exists>s. buildFieldSchema lib f = Inr s \<and> map_of sh' (f_name f) = Some s"
proof (induction fs arbitrary: sh)
  case Nil
  then show ?case by simp
next
  case (Cons g rest)
  from Cons.prems(1) obtain s where
    g: "buildFieldSchema lib g = Inr s"
    and r: "buildShape lib rest (setShape sh (f_name g) s) = Inr sh'"
    by (auto split: sum.splits)
  show ?case
  proof (cases "f = g")
    case True
    have "f_name g \<notin> f_name ` set rest"
      using Cons.prems(2) by auto
    then have "map_of sh' (f_name g) = Some s"
      using buildShape_other[OF r] by (simp add: map_of_setShape)
    with g True show ?thesis by simp
  next
    case False
    then have "f \<in> set rest" using Cons.prems(3) by simp
    then show ?thesis
      using Cons.IH[OF r] Cons.prems(2) by simp
  qed
qed

lemma schemaValid_fieldAccepted:
  "schemaValid sh vals \<Longrightarrow> fieldAccepted sh vals n"
proof (induction sh)
  case Nil
  then show ?case by (simp add: fieldAccepted_def)
next
  case (Cons ks rest)
  then show ?case
    by (cases ks) (auto simp: schemaValid_def fieldAccepted_def)
qed

text \<open>
  Claim C7, as the code has it.  In the validator built from a field list (the field names
  being distinct, and when building it does not throw), a required text field rejects the
  empty string, and it accepts a non-empty string exactly when the email rule is not
  configured for the field or the string has the email format; a required checkbox-group
  field rejects the empty array and accepts every non-empty array of strings.  A value set
  in which a field is rejected is not valid.  The task form builds its validator in the
  same way.
\<close>

theorem required_text_and_checkbox_rules:
  assumes built: "createDynamicDataSchema lib fs = Inr schemaShape"
      and names: "distinct (map f_name fs)"
      and mem: "f \<in> set fs"
      and req: "f_isRequired f"
  shows
    "(f_type f \<in> {TEXT_INPUT, TEXT_AREA} \<longrightarrow>
        (getProp vals (f_name f) = Str [] \<longrightarrow> \<not> fieldAccepted schemaShape vals (f_name f))
      \<and> (\<forall>s. s \<noteq> [] \<and> getProp vals (f_name f) = Str s \<longrightarrow>
             (fieldAccepted schemaShape vals (f_name f)
                \<longleftrightarrow> (f_ruleEmail f \<longrightarrow> emailFormat lib s))))
   \<and> (f_type f = CHECKBOX_GROUP \<longrightarrow>
        (getProp vals (f_name f) = Arr [] \<longrightarrow> \<not> fieldAccepted schemaShape vals (f_name f))
      \<and> (\<forall>xs. xs \<noteq> [] \<and> getProp vals (f_name f) = Arr (map Str xs) \<longrightarrow>
             fieldAccepted schemaShape vals (f_name f)))
   \<and> (\<not> fieldAccepted schemaShape vals (f_name f) \<longrightarrow> \<not> schemaValid schemaShape vals)
   \<and> createDynamicTaskDataSchema lib fs = createDynamicDataSchema lib fs"
proof -
  obtain s where s: "buildFieldSchema lib f = Inr s" "map_of schemaShape (f_name f) = Some s"
    using buildShape_lookup[OF built[unfolded createDynamicDataSchema_def] names mem] by blast
  have acc: "fieldAccepted schemaShape vals (f_name f) = s (getProp vals (f_name f))"
    using s(2) by (simp add: fieldAccepted_def)
  have strs: "\<And>xs. list_all isString (map Str xs)"
    by (simp add: list_all_iff)
  have strule: "f_type f \<in> {TEXT_INPUT, TEXT_AREA} \<Longrightarrow>
        s = zMin1 (if f_ruleEmail f then zEmail lib zString else zString)"
    using s(1) req by (auto simp: buildFieldSchema_def baseFieldSchema_def requiredRule_def)
  have box: "f_type f = CHECKBOX_GROUP \<Longrightarrow> s = zNonempty zArrayOfString"
    using s(1) req by (auto simp: buildFieldSchema_def baseFieldSchema_def requiredRule_def)
  show ?thesis
    using strule box schemaValid_fieldAccepted[of schemaShape vals "f_name f"]
    by (auto simp: acc zMin1_def zEmail_def zString_def zNonempty_def zArrayOfString_def strs Suc_le_eq
                   createDynamicTaskDataSchema_def createDynamicDataSchema_def)
qed

theorem required_text_and_checkbox_rules_witness:
  "createDynamicDataSchema demoLib [titleField, mailField, tagsField]
     = createDynamicTaskDataSchema demoLib [titleField, mailField, tagsField]
   \<and> \<not> isl (createDynamicDataSchema demoLib [titleField, mailField, tagsField])
   \<and> distinct (map f_name [titleField, mailField, tagsField])
   \<and> f_isRequired titleField \<and> f_isRequired mailField \<and> f_isRequired tagsField
   \<and> \<not> validatorAccepts (createDynamicDataSchema demoLib [titleField, mailField, tagsField])
         [(''title'', Str [])] ''title''
   \<and> validatorAccepts (createDynamicDataSchema demoLib [titleField, mailField, tagsField])
         [(''title'', Str ''x'')] ''title''
   \<and> validatorAccepts (createDynamicDataSchema demoLib [titleField, mailField, tagsField])
         [(''mail'', Str ''a@b'')] ''mail''
   \<and> \<not> validatorAccepts (createDynamicDataSchema demoLib [titleField, mailField, tagsField])
         [(''tags'', Arr [])] ''tags''
   \<and> validatorAccepts (createDynamicDataSchema demoLib [titleField, mailField, tagsField])
         [(''tags'', Arr [Str ''red''])] ''tags''"
proof -
  let ?fs = "[titleField, mailField, tagsField]"
  obtain sh where b: "createDynamicDataSchema demoLib ?fs = Inr sh"
    by (simp add: createDynamicDataSchema_def buildFieldSchema_def baseFieldSchema_def
                  titleField_def mailField_def tagsField_def)
  have d: "distinct (map f_name ?fs)"
    by (simp add: titleField_def mailField_def tagsField_def)
  have ty: "f_type titleField = TEXT_INPUT" "f_type mailField = TEXT_INPUT"
       "f_type tagsField = CHECKBOX_GROUP"
       "f_isRequired titleField" "f_isRequired mailField" "f_isRequired tagsField"
       "\<not> f_ruleEmail titleField" "f_ruleEmail mailField"
       "f_name titleField = ''title''" "f_name mailField = ''mail''" "f_name tagsField = ''tags''"
    by (simp_all add: titleField_def mailField_def tagsField_def)
  have em: "emailFormat demoLib ''a@b''"
    by (simp add: demoLib_def hasAtSign_def)
  have t1: "\<not> fieldAccepted sh [(''title'', Str [])] ''title''"
    using required_text_and_checkbox_rules[OF b d, of titleField "[(''title'', Str [])]"] ty
    by (auto simp: getProp_def)
  have t2: "fieldAccepted sh [(''title'', Str ''x'')] ''title''"
    using required_text_and_checkbox_rules[OF b d, of titleField "[(''title'', Str ''x'')]"] ty
    by (auto simp: getProp_def)
  have t3: "fieldAccepted sh [(''mail'', Str ''a@b'')] ''mail''"
    using required_text_and_checkbox_rules[OF b d, of mailField "[(''mail'', Str ''a@b'')]"] ty em
    by (auto simp: getProp_def)
  have t4: "\<not> fieldAccepted sh [(''tags'', Arr [])] ''tags''"
    using required_text_and_checkbox_rules[OF b d, of tagsField "[(''tags'', Arr [])]"] ty
    by (auto simp: getProp_def)
  have t5: "fieldAccepted sh [(''tags'', Arr [Str ''red''])] ''tags''"
    using required_text_and_checkbox_rules[OF b d, of tagsField "[(''tags'', Arr [Str ''red''])]",
            THEN conjunct2, THEN conjunct1] ty
    by (simp add: getProp_def) (metis list.distinct(1) list.simps(8,9))
  show ?thesis
    using b d ty t1 t2 t3 t4 t5
    by (simp add: validatorAccepts_def createDynamicTaskDataSchema_def
                  createDynamicDataSchema_def)
qed

text \<open>
  The claim as the specification words it fails: a required text field with the email rule
  rejects the non-empty string \<open>hello\<close> (under any format test that asks for an \<open>@\<close>), and a
  required checkbox group rejects the one-element array \<open>[1]\<close>.
\<close>

theorem required_text_accepts_nonempty_counterexample:
  "f_type mailField = TEXT_INPUT \<and> f_isRequired mailField
   \<and> \<not> isl (createDynamicDataSchema demoLib [mailField])
   \<and> \<not> validatorAccepts (createDynamicDataSchema demoLib [mailField])
         [(''mail'', Str ''hello'')] ''mail''
   \<and> f_type tagsField = CHECKBOX_GROUP \<and> f_isRequired tagsField
   \<and> \<not> isl (createDynamicDataSchema demoLib [tagsField])
   \<and> \<not> validatorAccepts (createDynamicDataSchema demoLib [tagsField])
         [(''tags'', Arr [Num 1])] ''tags''"
  by code_simp
section \<open>Task status transitions\<close>

text \<open>
  Claim C8.  A task starts in status Pending.  Take a task that is in the database, and no
  transport fault.  Saving data with \<open>updateTaskDynamicData\<close>, when the database can hold
  the values to save (a \<open>File\<close> being allowed for a document-upload field of the task's
  table, which the codec replaces by a path), moves a Pending task to In Progress and
  records the server time as its start when it has none; a task in any other status keeps
  its status and its start.  When the save fails, which here can only be the database
  refusing a value, the task is as it was.  \<open>completeTask\<close> sets the status Completed and
  the finish time to the server time of the write, and on a Pending task without a start it
  records that time as the start as well.  Both calls read the task, write it and read it
  back, and return the stored task.
\<close>

theorem task_status_machine:
  assumes nofault: "\<forall>k. \<not> fault env k"
      and tsk: "find (\<lambda>t. tk_id t = taskId) (tasks (db w)) = Some t0"
  shows "tk_status (newTaskDoc instanceData newInstanceId taskTemplate initialTaskData dueDate
                      newTaskId)
           = PENDING
       \<and> (valuesStorable (docFieldNames (taskTableFields (db w) t0)) newData
            \<and> firestoreMap currentData
          \<longrightarrow> (\<exists>t' w' k.
                 updateTaskDynamicData env taskId newData currentData w = (Inr t', w')
               \<and> find (\<lambda>t. tk_id t = taskId) (tasks (db w')) = Some t'
               \<and> tk_status t' = (if tk_status t0 = PENDING then IN_PROGRESS else tk_status t0)
               \<and> tk_startDatetime t' =
                   (if tk_status t0 = PENDING \<and> tk_startDatetime t0 = None
                    then Some (At (serverTime env k)) else tk_startDatetime t0)
               \<and> tk_finishDatetime t' = tk_finishDatetime t0))
       \<and> (\<forall>e. fst (updateTaskDynamicData env taskId newData currentData w) = Inl e
            \<longrightarrow> e = InvalidArgument
              \<and> find (\<lambda>t. tk_id t = taskId)
                    (tasks (db (snd (updateTaskDynamicData env taskId newData currentData w))))
                  = Some t0)
       \<and> (\<exists>t' w'.
            completeTask env taskId notes w = (Inr t', w')
          \<and> find (\<lambda>t. tk_id t = taskId) (tasks (db w')) = Some t'
          \<and> tk_status t' = TASK_COMPLETED
          \<and> tk_finishDatetime t' = Some (At (serverTime env (Suc (tick w))))
          \<and> tk_startDatetime t' =
              (if tk_status t0 = PENDING \<and> tk_startDatetime t0 = None
               then Some (At (serverTime env (Suc (tick w)))) else tk_startDatetime t0))"
proof (intro conjI allI impI)
  show "tk_status (newTaskDoc instanceData newInstanceId taskTemplate initialTaskData dueDate
                     newTaskId)
           = PENDING"
    by (simp add: newTaskDoc_def)
next
  assume st: "valuesStorable (docFieldNames (taskTableFields (db w) t0)) newData
                \<and> firestoreMap currentData"
  obtain t' w' k pd' where u:
    "updateTaskDynamicData env taskId newData currentData w = (Inr t', w')"
    "find (\<lambda>t. tk_id t = taskId) (tasks (db w')) = Some t'"
    "t' = applyTaskUpdate (serverTime env k)
                  \<lparr>u_dynamicTableData = Some pd',
                   u_status = (if tk_status t0 = PENDING then Some IN_PROGRESS else None),
                   u_startDatetime =
                     (if tk_status t0 = PENDING \<and> tk_startDatetime t0 = None
                      then Some ServerTimestamp else None),
                   u_finishDatetime = None,
                   u_notes = None,
                   u_updatedAt = Some ServerTimestamp\<rparr> t0"
    using updateTaskDynamicData_ok[OF nofault tsk, of newData currentData] st by blast
  show "\<exists>t' w' k.
            updateTaskDynamicData env taskId newData currentData w = (Inr t', w')
          \<and> find (\<lambda>t. tk_id t = taskId) (tasks (db w')) = Some t'
          \<and> tk_status t' = (if tk_status t0 = PENDING then IN_PROGRESS else tk_status t0)
          \<and> tk_startDatetime t' =
              (if tk_status t0 = PENDING \<and> tk_startDatetime t0 = None
               then Some (At (serverTime env k)) else tk_startDatetime t0)
          \<and> tk_finishDatetime t' = tk_finishDatetime t0"
    by (rule exI[of _ t'], rule exI[of _ w'], rule exI[of _ k])
       (use u in \<open>simp add: applyTaskUpdate_def\<close>)
next
  fix e
  assume f: "fst (updateTaskDynamicData env taskId newData currentData w) = Inl e"
  obtain pd' where c:
    "if firestoreMap pd'
            then (\<exists>t' w' k.
                    updateTaskDynamicData env taskId newData currentData w = (Inr t', w')
                  \<and> find (\<lambda>t. tk_id t = taskId) (tasks (db w')) = Some t'
                  \<and> t' = applyTaskUpdate (serverTime env k)
                           \<lparr>u_dynamicTableData = Some pd',
                            u_status = (if tk_status t0 = PENDING then Some IN_PROGRESS else None),
                            u_startDatetime =
                              (if tk_status t0 = PENDING \<and> tk_startDatetime t0 = None
                               then Some ServerTimestamp else None),
                            u_finishDatetime = None,
                            u_notes = None,
                            u_updatedAt = Some ServerTimestamp\<rparr> t0)
            else (\<exists>w'. updateTaskDynamicData env taskId newData currentData w
                          = (Inl InvalidArgument, w')
                      \<and> db w' = db w)"
    using updateTaskDynamicData_cases[OF nofault tsk, of newData currentData] by blast
  have no: "\<not> firestoreMap pd'"
    using c f by auto
  then obtain w' where r: "updateTaskDynamicData env taskId newData currentData w
                          = (Inl InvalidArgument, w')"
                      "db w' = db w"
    using c by auto
  show "e = InvalidArgument"
    using r(1) f by simp
  show "find (\<lambda>t. tk_id t = taskId)
          (tasks (db (snd (updateTaskDynamicData env taskId newData currentData w))))
        = Some t0"
    using r tsk by simp
next
  obtain w' where c: "completeTask env taskId notes w
            = (Inr (applyTaskUpdate (serverTime env (Suc (tick w)))
                  \<lparr>u_dynamicTableData = None,
                   u_status = Some TASK_COMPLETED,
                   u_startDatetime =
                     (if tk_startDatetime t0 = None \<and> tk_status t0 = PENDING
                      then Some ServerTimestamp else None),
                   u_finishDatetime = Some ServerTimestamp,
                   u_notes = (if optTruthy notes then notes else None),
                   u_updatedAt = Some ServerTimestamp\<rparr> t0), w')"
         "find (\<lambda>t. tk_id t = taskId) (tasks (db w'))
            = Some (applyTaskUpdate (serverTime env (Suc (tick w)))
                  \<lparr>u_dynamicTableData = None,
                   u_status = Some TASK_COMPLETED,
                   u_startDatetime =
                     (if tk_startDatetime t0 = None \<and> tk_status t0 = PENDING
                      then Some ServerTimestamp else None),
                   u_finishDatetime = Some ServerTimestamp,
                   u_notes = (if optTruthy notes then notes else None),
                   u_updatedAt = Some ServerTimestamp\<rparr> t0)"
    using completeTask_ok[OF nofault tsk, of "notes"] by blast
  show "\<exists>t' w'.
            completeTask env taskId notes w = (Inr t', w')
          \<and> find (\<lambda>t. tk_id t = taskId) (tasks (db w')) = Some t'
          \<and> tk_status t' = TASK_COMPLETED
          \<and> tk_finishDatetime t' = Some (At (serverTime env (Suc (tick w))))
          \<and> tk_startDatetime t' =
              (if tk_status t0 = PENDING \<and> tk_startDatetime t0 = None
               then Some (At (serverTime env (Suc (tick w)))) else tk_startDatetime t0)"
    using c by (auto simp: applyTaskUpdate_def)
qed

text \<open>
  On the small system, for the pending task: a save of an empty value set makes it In
  Progress, started at the server time of the write (the fourth SDK call); a save of a value
  set with an \<open>undefined\<close> value is refused and leaves it Pending; completing it makes it
  Completed, started and finished at the server time of the write (the second SDK call).
\<close>

theorem task_status_machine_witness:
  "(\<forall>k. \<not> fault demoEnv k)
   \<and> find (\<lambda>t. tk_id t = ''k1'') (tasks (db demoWorld)) = Some demoTask
   \<and> tk_status demoTask = PENDING \<and> tk_startDatetime demoTask = None
   \<and> valuesStorable (docFieldNames (taskTableFields (db demoWorld) demoTask)) []
   \<and> firestoreMap []
   \<and> (\<exists>t' w'. updateTaskDynamicData demoEnv ''k1'' [] [] demoWorld = (Inr t', w')
          \<and> tk_status t' = IN_PROGRESS \<and> tk_startDatetime t' = Some (At 5003))
   \<and> fst (updateTaskDynamicData demoEnv ''k1'' [(''flag'', Undefined)] [] demoWorld)
       = Inl InvalidArgument
   \<and> find (\<lambda>t. tk_id t = ''k1'')
        (tasks (db (snd (updateTaskDynamicData demoEnv ''k1'' [(''flag'', Undefined)] []
                           demoWorld))))
       = Some demoTask
   \<and> (\<exists>t' w'. completeTask demoEnv ''k1'' None demoWorld = (Inr t', w')
          \<and> tk_status t' = TASK_COMPLETED \<and> tk_finishDatetime t' = Some (At 5001)
          \<and> tk_startDatetime t' = Some (At 5001))"
proof -
  have h1: "\<forall>k. \<not> fault demoEnv k" by (simp add: demoEnv_def)
  have h2: "find (\<lambda>t. tk_id t = ''k1'') (tasks (db demoWorld)) = Some demoTask"
    by (simp add: demoWorld_def demoTask_def doneTask_def)
  have st: "tk_status demoTask = PENDING" "tk_startDatetime demoTask = None"
    by (simp_all add: demoTask_def)
  have s1: "valuesStorable (docFieldNames (taskTableFields (db demoWorld) demoTask)) []"
    by code_simp
  have s2: "firestoreMap []" by (simp add: firestoreMap_def)
  have tk0: "tick demoWorld = 0" by (simp add: demoWorld_def)
  have run: "map_sum id (\<lambda>t. (tk_status t, tk_startDatetime t))
               (fst (updateTaskDynamicData demoEnv ''k1'' [] [] demoWorld))
             = Inr (IN_PROGRESS, Some (At 5003))"
    by code_simp
  have bad: "fst (updateTaskDynamicData demoEnv ''k1'' [(''flag'', Undefined)] [] demoWorld)
       = Inl InvalidArgument"
    by code_simp
  note inst = task_status_machine[OF h1 h2, of _ _ _ _ _ _ "[]" "[]" None]
  have a: "\<exists>t' w'. updateTaskDynamicData demoEnv ''k1'' [] [] demoWorld = (Inr t', w')
          \<and> tk_status t' = IN_PROGRESS \<and> tk_startDatetime t' = Some (At 5003)"
  proof -
    obtain t' w' k where u:
      "updateTaskDynamicData demoEnv ''k1'' [] [] demoWorld = (Inr t', w')"
      "tk_status t' = (if tk_status demoTask = PENDING then IN_PROGRESS else tk_status demoTask)"
      using inst[THEN conjunct2, THEN conjunct1, THEN mp, OF conjI[OF s1 s2]] by blast
    have "tk_status t' = IN_PROGRESS \<and> tk_startDatetime t' = Some (At 5003)"
      using run u(1) by simp
    with u(1) show ?thesis by blast
  qed
  have b: "find (\<lambda>t. tk_id t = ''k1'')
        (tasks (db (snd (updateTaskDynamicData demoEnv ''k1'' [(''flag'', Undefined)] []
                           demoWorld))))
       = Some demoTask"
    using task_status_machine[OF h1 h2, of _ _ _ _ _ _ "[(''flag'', Undefined)]" "[]",
            THEN conjunct2, THEN conjunct2, THEN conjunct1, rule_format, OF bad]
    by simp
  have sv: "serverTime demoEnv (Suc (tick demoWorld)) = 5001"
    by (simp add: demoEnv_def tk0)
  have c: "\<exists>t' w'. completeTask demoEnv ''k1'' None demoWorld = (Inr t', w')
          \<and> tk_status t' = TASK_COMPLETED \<and> tk_finishDatetime t' = Some (At 5001)
          \<and> tk_startDatetime t' = Some (At 5001)"
    using inst[THEN conjunct2, THEN conjunct2, THEN conjunct2]
    by (simp add: st sv) blast
  show ?thesis
    using h1 h2 st s1 s2 a bad b c by simp
qed
section \<open>Completing the last task of an instance\<close>

text \<open>
  While the page component has a state update pending, \<open>handleTaskCompleted\<close> reads its
  flag before the updater has run: whatever the tasks are, no status update is sent and the
  instances in the database stay as they are.  This is the case of a completion that comes
  in before the page has rendered the one before it.
\<close>

lemma handleMarkComplete_update_pending:
  assumes "pg_updatePending pg"
  shows "workflowInstances (db (snd (handleMarkComplete env task pg w)))
           = workflowInstances (db w)"
proof (cases "case pg_instance pg of None \<Rightarrow> False | Some inst \<Rightarrow> wi_isArchived inst")
  case True
  then show ?thesis by (simp add: handleMarkComplete_def)
next
  case False
  obtain r w1 where c: "completeTask env (tk_id task) None w = (r, w1)"
    by (cases "completeTask env (tk_id task) None w")
  have i: "workflowInstances (db w1) = workflowInstances (db w)"
    using completeTask_instances[of env "tk_id task" None w] c by simp
  show ?thesis
    using False c i assms
    by (cases r) (auto simp: handleMarkComplete_def handleTaskCompleted_def Let_def
                       split: option.splits)
qed



end
